theory Spec2Isabelle
  imports Main
begin

section \<open>file-rotatelogs: the rotation engine of rotatelogs.go\<close>

text \<open>
  A shallow embedding of \<^verbatim>\<open>src/rotatelogs.go\<close>: construction (\<^verbatim>\<open>New\<close>), the
  rotation decision (\<^verbatim>\<open>getWriterNolock\<close>), the cleanup (\<^verbatim>\<open>rotateNolock\<close>) and the
  public calls \<^verbatim>\<open>Write\<close>, \<^verbatim>\<open>Rotate\<close>, \<^verbatim>\<open>Close\<close>. The operating system is an explicit
  value (file table, open descriptors, clocks, the list of calls issued); every call of
  the \<^verbatim>\<open>os\<close> package is a function on it. The mutex of the engine is not modelled: each
  call runs alone, as it does under the lock.
\<close>

subsection \<open>Strings: the functions of \<^verbatim>\<open>strings\<close>, \<^verbatim>\<open>strconv\<close> and \<^verbatim>\<open>fmt\<close> the code calls\<close>

text \<open>\<^verbatim>\<open>strings.HasPrefix\<close> and \<^verbatim>\<open>strings.HasSuffix\<close>.\<close>

definition HasPrefix :: "string \<Rightarrow> string \<Rightarrow> bool" where
  "HasPrefix s pre = (take (length pre) s = pre)"

definition HasSuffix :: "string \<Rightarrow> string \<Rightarrow> bool" where
  "HasSuffix s suf = (length suf \<le> length s \<and> drop (length s - length suf) s = suf)"

text \<open>\<^verbatim>\<open>strings.Contains(s, substr)\<close>: \<^verbatim>\<open>substr\<close> occurs somewhere in \<^verbatim>\<open>s\<close>.\<close>

fun Contains :: "string \<Rightarrow> string \<Rightarrow> bool" where
  "Contains [] substr = (substr = [])"
| "Contains (c # cs) substr = (HasPrefix (c # cs) substr \<or> Contains cs substr)"

text \<open>
  \<^verbatim>\<open>strings.LastIndex(s, ".")\<close> for a one-byte separator: the index of its last
  occurrence, or \<open>-1\<close>. The helper walks the string with the index of the current byte
  and the last index found so far.
\<close>

fun last_index_from :: "char \<Rightarrow> string \<Rightarrow> int \<Rightarrow> int \<Rightarrow> int" where
  "last_index_from sep [] i found = found"
| "last_index_from sep (c # cs) i found =
     last_index_from sep cs (i + 1) (if c = sep then i else found)"

definition LastIndex :: "string \<Rightarrow> char \<Rightarrow> int" where
  "LastIndex s sep = last_index_from sep s 0 (- 1)"

text \<open>The value of a decimal digit, \<open>None\<close> for any other byte.\<close>

definition digit_of :: "char \<Rightarrow> int option" where
  "digit_of c = map_of
     [(CHR ''0'', 0), (CHR ''1'', 1), (CHR ''2'', 2), (CHR ''3'', 3), (CHR ''4'', 4),
      (CHR ''5'', 5), (CHR ''6'', 6), (CHR ''7'', 7), (CHR ''8'', 8), (CHR ''9'', 9)] c"

fun digits_value :: "string \<Rightarrow> int \<Rightarrow> int option" where
  "digits_value [] n = Some n"
| "digits_value (c # cs) n =
     (case digit_of c of None \<Rightarrow> None | Some d \<Rightarrow> digits_value cs (n * 10 + d))"

text \<open>
  \<^verbatim>\<open>strconv.Atoi\<close> with its error dropped, as line 176 does
  (\<^verbatim>\<open>generation, _ = strconv.Atoi(generationStr)\<close>): an optional sign and at least one
  decimal digit give the number, clamped to the 64-bit range of \<^verbatim>\<open>int\<close> (the value
  \<^verbatim>\<open>Atoi\<close> returns beside a range error); anything else gives 0.
\<close>

definition MaxInt64 :: int where "MaxInt64 = 2 ^ 63 - 1"
definition MinInt64 :: int where "MinInt64 = - (2 ^ 63)"

fun Atoi :: "string \<Rightarrow> int" where
  "Atoi [] = 0"
| "Atoi (c # cs) =
     (if c = CHR ''-'' then
        (case cs of [] \<Rightarrow> 0
         | _ \<Rightarrow> (case digits_value cs 0 of None \<Rightarrow> 0 | Some n \<Rightarrow> max MinInt64 (- n)))
      else if c = CHR ''+'' then
        (case cs of [] \<Rightarrow> 0
         | _ \<Rightarrow> (case digits_value cs 0 of None \<Rightarrow> 0 | Some n \<Rightarrow> min MaxInt64 n))
      else (case digits_value (c # cs) 0 of None \<Rightarrow> 0 | Some n \<Rightarrow> min MaxInt64 n))"

text \<open>The verb \<^verbatim>\<open>%d\<close> of \<^verbatim>\<open>fmt.Sprintf\<close>: decimal digits, with a minus sign when negative.\<close>

definition digit_char :: "nat \<Rightarrow> char" where
  "digit_char d = ''0123456789'' ! (d mod 10)"

function decimal :: "nat \<Rightarrow> string" where
  "decimal n = (if n < 10 then [digit_char n] else decimal (n div 10) @ [digit_char n])"
  by pat_completeness auto
termination
  by (relation "measure id") auto

declare decimal.simps [simp del]

definition Sprintf_d :: "int \<Rightarrow> string" where
  "Sprintf_d i = (if i < 0 then CHR ''-'' # decimal (nat (- i)) else decimal (nat i))"

text \<open>
  Go's \<^verbatim>\<open>int\<close> is 64 bits wide here: \<^verbatim>\<open>generation++\<close> wraps from \<open>2^63 - 1\<close> to
  \<open>-2^63\<close>.
\<close>

definition wrap64 :: "int \<Rightarrow> int" where
  "wrap64 i = (i + 2 ^ 63) mod 2 ^ 64 - 2 ^ 63"

subsection \<open>Errors\<close>

text \<open>
  Every error value the code can hold. \<open>SysErr\<close> is the error of a call the operating
  system rejects; \<open>ErrExist\<close> and \<open>ErrNotExist\<close> are the two errors that follow from the
  file table itself; \<open>ErrorsNew\<close> is \<^verbatim>\<open>errors.New(msg)\<close> and \<open>Wrap\<close> is
  \<^verbatim>\<open>errors.Wrap(err, msg)\<close>.
\<close>

datatype sysop =
    SysStat string
  | SysLstat string
  | SysGlob string
  | SysCreateFile string
  | SysOpenExcl string
  | SysSymlink string string
  | SysMkdirAll string
  | SysRename string string
  | SysRemove string
  | SysClose nat
  | SysWrite nat nat

datatype error =
    SysErr sysop
  | ErrExist string
  | ErrNotExist string
  | ErrInvalid
  | ErrBadPattern
  | ErrRel
  | ErrStrftime
  | ErrorsNew string
  | Wrap error string

subsection \<open>Construction: \<^verbatim>\<open>New\<close> (lines 29-100)\<close>

type_synonym time = int
type_synonym duration = int

definition Hour :: duration where "Hour = 3600 * 1000000000"

text \<open>
  \<^verbatim>\<open>Clock\<close> is an interface with one method \<^verbatim>\<open>Now()\<close>. A clock is modelled by what it
  reports at a given instant of real time (nanoseconds since the epoch); \<^verbatim>\<open>Local\<close>
  reports that instant itself.
\<close>

type_synonym clock = "time \<Rightarrow> time"

definition Local :: clock where "Local = (\<lambda>t. t)"

text \<open>
  Modelled from the spec: the compiled time pattern (\<^verbatim>\<open>*strftime.Strftime\<close>) together
  with the Filename Resolver \<^verbatim>\<open>fileutil.GenerateFn\<close>, neither of which is among the
  sources. The spec gives the resolver as \<^verbatim>\<open>expand(template, time, bucketWidth) -> string\<close>,
  "deterministic given its inputs": a pattern is the function from the clock reading and
  the bucket width to the base filename.
\<close>

type_synonym strftime = "time \<Rightarrow> duration \<Rightarrow> string"

typedecl Handler

text \<open>
  The struct \<^verbatim>\<open>RotateLogs\<close>, its fields as \<^verbatim>\<open>New\<close> and the methods use them. Durations
  and sizes are \<^verbatim>\<open>int64\<close>, \<^verbatim>\<open>rotationCount\<close> is \<^verbatim>\<open>uint\<close>, \<^verbatim>\<open>generation\<close> is \<^verbatim>\<open>int\<close>;
  \<^verbatim>\<open>outFh\<close> is a file descriptor or \<^verbatim>\<open>nil\<close>.
\<close>

record RotateLogs =
  clock :: clock
  curBaseFn :: string
  curFn :: string
  eventHandler :: "Handler option"
  generation :: int
  globPattern :: string
  linkName :: string
  maxAge :: duration
  outFh :: "nat option"
  pattern :: strftime
  rotationTime :: duration
  rotationSize :: int
  rotationCount :: nat
  forceNewFile :: bool

text \<open>An option is its key (\<^verbatim>\<open>o.Name()\<close>) and its value (\<^verbatim>\<open>o.Value()\<close>).\<close>

datatype Option =
    optkeyClock clock
  | optkeyLinkName string
  | optkeyMaxAge duration
  | optkeyRotationTime duration
  | optkeyRotationSize int
  | optkeyRotationCount nat
  | optkeyHandler Handler
  | optkeyForceNewFile

text \<open>
  \<^verbatim>\<open>patternConversionRegexps\<close> (lines 276-279), each applied with
  \<^verbatim>\<open>ReplaceAllString(globPattern, "*")\<close>: first every \<^verbatim>\<open>%\<close> followed by \<^verbatim>\<open>%\<close>, \<^verbatim>\<open>+\<close>
  or an ASCII letter becomes \<^verbatim>\<open>*\<close> (leftmost matches, not overlapping), then every run
  of \<^verbatim>\<open>*\<close> becomes one \<^verbatim>\<open>*\<close>.
\<close>

definition is_verb_char :: "char \<Rightarrow> bool" where
  "is_verb_char c = (c \<in> set ''%+ABCDEFGHIJKLMNOPQRSTUVWXYZabcdefghijklmnopqrstuvwxyz'')"

fun replace_verbs :: "string \<Rightarrow> string" where
  "replace_verbs (c # d # cs) =
     (if c = CHR ''%'' \<and> is_verb_char d then CHR ''*'' # replace_verbs cs
      else c # replace_verbs (d # cs))"
| "replace_verbs cs = cs"

fun replace_stars :: "string \<Rightarrow> string" where
  "replace_stars (c # d # cs) =
     (if c = CHR ''*'' \<and> d = CHR ''*'' then replace_stars (d # cs)
      else c # replace_stars (d # cs))"
| "replace_stars cs = cs"

text \<open>The local variables of \<^verbatim>\<open>New\<close> that the option loop assigns (lines 40-47).\<close>

record settings =
  s_clock :: clock
  s_rotationTime :: duration
  s_rotationSize :: int
  s_rotationCount :: nat
  s_linkName :: string
  s_maxAge :: duration
  s_handler :: "Handler option"
  s_forceNewFile :: bool

definition initial_settings :: settings where
  "initial_settings =
     \<lparr>s_clock = Local, s_rotationTime = 24 * Hour, s_rotationSize = 0, s_rotationCount = 0,
      s_linkName = [], s_maxAge = 0, s_handler = None, s_forceNewFile = False\<rparr>"

text \<open>One turn of the loop over the options (lines 49-77).\<close>

fun apply_option :: "settings \<Rightarrow> Option \<Rightarrow> settings" where
  "apply_option s (optkeyClock c) = s\<lparr>s_clock := c\<rparr>"
| "apply_option s (optkeyLinkName l) = s\<lparr>s_linkName := l\<rparr>"
| "apply_option s (optkeyMaxAge d) = s\<lparr>s_maxAge := (if d < 0 then 0 else d)\<rparr>"
| "apply_option s (optkeyRotationTime d) = s\<lparr>s_rotationTime := (if d < 0 then 0 else d)\<rparr>"
| "apply_option s (optkeyRotationSize n) = s\<lparr>s_rotationSize := (if n < 0 then 0 else n)\<rparr>"
| "apply_option s (optkeyRotationCount n) = s\<lparr>s_rotationCount := n\<rparr>"
| "apply_option s (optkeyHandler h) = s\<lparr>s_handler := Some h\<rparr>"
| "apply_option s optkeyForceNewFile = s\<lparr>s_forceNewFile := True\<rparr>"

text \<open>
  \<^verbatim>\<open>New(p, options...)\<close>. The first argument stands for \<^verbatim>\<open>strftime.New\<close>, a library
  outside the repository: it compiles the pattern or rejects it.
\<close>

definition New :: "(string \<Rightarrow> strftime option) \<Rightarrow> string \<Rightarrow> Option list \<Rightarrow> error + RotateLogs" where
  "New strftime_New p options =
     (let globPattern' = replace_stars (replace_verbs p) in
      case strftime_New p of
        None \<Rightarrow> Inl (Wrap ErrStrftime ''invalid strftime pattern'')
      | Some pattern' \<Rightarrow>
          (let s = foldl apply_option initial_settings options in
           if s_maxAge s > 0 \<and> s_rotationCount s > 0
           then Inl (ErrorsNew ''options MaxAge and RotationCount cannot be both set'')
           else
             (let maxAge' = (if s_maxAge s = 0 \<and> s_rotationCount s = 0
                            then 7 * 24 * Hour else s_maxAge s)
              in Inr \<lparr>clock = s_clock s, curBaseFn = [], curFn = [],
                      eventHandler = s_handler s, generation = 0,
                      globPattern = globPattern', linkName = s_linkName s,
                      maxAge = maxAge', outFh = None, pattern = pattern',
                      rotationTime = s_rotationTime s, rotationSize = s_rotationSize s,
                      rotationCount = s_rotationCount s,
                      forceNewFile = s_forceNewFile s\<rparr>)))"

subsection \<open>The operating system\<close>

text \<open>
  A directory entry. \<open>nd_size\<close> and \<open>nd_mtime\<close> are what \<^verbatim>\<open>FileInfo.Size()\<close> and
  \<^verbatim>\<open>FileInfo.ModTime()\<close> report (nanoseconds since the epoch); \<open>nd_target\<close> is the
  target of a symbolic link and \<open>None\<close> for any other entry.
\<close>

record node =
  nd_size :: int
  nd_mtime :: time
  nd_target :: "string option"

text \<open>
  The state outside the engine. \<open>w_rejects\<close> lists the calls the system refuses for
  reasons of its own (permissions, a full disk, a missing directory); \<open>w_trace\<close> is the
  list of filesystem calls issued so far, oldest first. \<open>w_wall\<close> is \<^verbatim>\<open>time.Now()\<close>;
  no time passes during one call of the engine. \<open>w_stderr\<close> holds what was printed to
  \<^verbatim>\<open>os.Stderr\<close>, \<open>w_events\<close> the events handed to the event handler.
  \<open>w_Glob\<close>, \<open>w_Dir\<close> and \<open>w_Rel\<close> stand for \<^verbatim>\<open>filepath.Glob\<close>, \<^verbatim>\<open>filepath.Dir\<close> and
  \<^verbatim>\<open>filepath.Rel\<close> of the standard library; \<^verbatim>\<open>Glob\<close> reads the file table and fails on
  a malformed pattern only, \<^verbatim>\<open>Rel\<close> may fail.
\<close>

record world =
  w_files :: "string \<rightharpoonup> node"
  w_rejects :: "sysop \<Rightarrow> bool"
  w_trace :: "sysop list"
  w_open :: "nat \<rightharpoonup> string"
  w_nextfd :: nat
  w_wall :: time
  w_stderr :: "error list"
  w_events :: "(string \<times> string) list"
  w_Glob :: "(string \<rightharpoonup> node) \<Rightarrow> string \<Rightarrow> string list option"
  w_Dir :: "string \<Rightarrow> string"
  w_Rel :: "string \<Rightarrow> string \<Rightarrow> string option"

definition issue :: "sysop \<Rightarrow> world \<Rightarrow> world" where
  "issue c w = w\<lparr>w_trace := w_trace w @ [c]\<rparr>"

text \<open>\<^verbatim>\<open>Time.Unix()\<close>: whole seconds since the epoch, rounded down.\<close>

definition Unix :: "time \<Rightarrow> int" where
  "Unix t = t div 1000000000"

text \<open>
  \<^verbatim>\<open>os.Stat\<close> follows a symbolic link and fails when the entry or the target is missing;
  \<^verbatim>\<open>os.Lstat\<close> reports the entry itself. The code looks at \<^verbatim>\<open>err != nil\<close> only, so a
  failure is \<open>None\<close>. The empty path names no file.
\<close>

definition os_Stat :: "string \<Rightarrow> world \<Rightarrow> node option \<times> world" where
  "os_Stat p w =
     (if p = [] \<or> w_rejects w (SysStat p) then (None, issue (SysStat p) w)
      else case w_files w p of
             None \<Rightarrow> (None, issue (SysStat p) w)
           | Some n \<Rightarrow>
               (case nd_target n of
                  None \<Rightarrow> (Some n, issue (SysStat p) w)
                | Some t \<Rightarrow> (w_files w t, issue (SysStat p) w)))"

definition os_Lstat :: "string \<Rightarrow> world \<Rightarrow> node option \<times> world" where
  "os_Lstat p w =
     (if p = [] \<or> w_rejects w (SysLstat p) then (None, issue (SysLstat p) w)
      else (w_files w p, issue (SysLstat p) w))"

text \<open>\<^verbatim>\<open>fl.Mode()&os.ModeSymlink == os.ModeSymlink\<close>.\<close>

definition is_symlink :: "node \<Rightarrow> bool" where
  "is_symlink n = (nd_target n \<noteq> None)"

definition filepath_Glob :: "string \<Rightarrow> world \<Rightarrow> string list option \<times> world" where
  "filepath_Glob pat w = (w_Glob w (w_files w) pat, issue (SysGlob pat) w)"

text \<open>A fresh, empty regular file, modified now.\<close>

definition new_node :: "world \<Rightarrow> node" where
  "new_node w = \<lparr>nd_size = 0, nd_mtime = w_wall w, nd_target = None\<rparr>"

text \<open>
  \<^verbatim>\<open>os.OpenFile(p, os.O_CREATE|os.O_EXCL, 0644)\<close>: creates the file and returns a
  descriptor, or fails when the entry exists.
\<close>

definition os_OpenFile_excl :: "string \<Rightarrow> world \<Rightarrow> (error + nat) \<times> world" where
  "os_OpenFile_excl p w =
     (if p = [] \<or> w_rejects w (SysOpenExcl p) then (Inl (SysErr (SysOpenExcl p)), issue (SysOpenExcl p) w)
      else if w_files w p \<noteq> None then (Inl (ErrExist p), issue (SysOpenExcl p) w)
      else (Inr (w_nextfd w),
            issue (SysOpenExcl p)
              (w\<lparr>w_files := (w_files w)(p \<mapsto> new_node w),
                 w_open := (w_open w)(w_nextfd w \<mapsto> p),
                 w_nextfd := Suc (w_nextfd w)\<rparr>)))"

text \<open>
  \<^verbatim>\<open>(*os.File).Close\<close>; the code never reads its result. Closing \<^verbatim>\<open>nil\<close> does nothing.
\<close>

definition File_Close :: "nat option \<Rightarrow> world \<Rightarrow> world" where
  "File_Close fh w =
     (case fh of
        None \<Rightarrow> w
      | Some fd \<Rightarrow> issue (SysClose fd) (w\<lparr>w_open := (w_open w)(fd := None)\<rparr>))"

text \<open>\<^verbatim>\<open>os.Remove\<close>; the code never reads its result.\<close>

definition os_Remove :: "string \<Rightarrow> world \<Rightarrow> world" where
  "os_Remove p w =
     (if p = [] \<or> w_rejects w (SysRemove p) \<or> w_files w p = None then issue (SysRemove p) w
      else issue (SysRemove p) (w\<lparr>w_files := (w_files w)(p := None)\<rparr>))"

definition os_Symlink :: "string \<Rightarrow> string \<Rightarrow> world \<Rightarrow> error option \<times> world" where
  "os_Symlink oldname newname w =
     (if newname = [] \<or> w_rejects w (SysSymlink oldname newname)
      then (Some (SysErr (SysSymlink oldname newname)), issue (SysSymlink oldname newname) w)
      else if w_files w newname \<noteq> None
      then (Some (ErrExist newname), issue (SysSymlink oldname newname) w)
      else (None,
            issue (SysSymlink oldname newname)
              (w\<lparr>w_files := (w_files w)(newname \<mapsto>
                    \<lparr>nd_size = 0, nd_mtime = w_wall w, nd_target = Some oldname\<rparr>)\<rparr>)))"

definition os_MkdirAll :: "string \<Rightarrow> world \<Rightarrow> error option \<times> world" where
  "os_MkdirAll dir w =
     (if w_rejects w (SysMkdirAll dir)
      then (Some (SysErr (SysMkdirAll dir)), issue (SysMkdirAll dir) w)
      else if w_files w dir \<noteq> None then (None, issue (SysMkdirAll dir) w)
      else (None, issue (SysMkdirAll dir) (w\<lparr>w_files := (w_files w)(dir \<mapsto> new_node w)\<rparr>)))"

definition os_Rename :: "string \<Rightarrow> string \<Rightarrow> world \<Rightarrow> error option \<times> world" where
  "os_Rename oldpath newpath w =
     (if w_rejects w (SysRename oldpath newpath)
      then (Some (SysErr (SysRename oldpath newpath)), issue (SysRename oldpath newpath) w)
      else case w_files w oldpath of
             None \<Rightarrow> (Some (ErrNotExist oldpath), issue (SysRename oldpath newpath) w)
           | Some n \<Rightarrow>
               (None,
                issue (SysRename oldpath newpath)
                  (w\<lparr>w_files := ((w_files w)(oldpath := None))(newpath \<mapsto> n)\<rparr>)))"

text \<open>
  Modelled from the spec: \<^verbatim>\<open>fileutil.CreateFile\<close>, the file-creation primitive, which is
  not among the sources. The spec: \<^verbatim>\<open>createOrAppend(path) -> handle | error\<close>, "must create
  missing parent directories, must open in append mode, must not truncate pre-existing
  content". An entry that exists keeps its size and time; the call returns a fresh
  descriptor or an error.
\<close>

definition fileutil_CreateFile :: "string \<Rightarrow> world \<Rightarrow> (error + nat) \<times> world" where
  "fileutil_CreateFile filename w =
     (if filename = [] \<or> w_rejects w (SysCreateFile filename)
      then (Inl (SysErr (SysCreateFile filename)), issue (SysCreateFile filename) w)
      else
        (let dir = w_Dir w filename;
             files1 = (if w_files w dir = None then (w_files w)(dir \<mapsto> new_node w) else w_files w);
             files2 = (if files1 filename = None then files1(filename \<mapsto> new_node w) else files1)
         in (Inr (w_nextfd w),
             issue (SysCreateFile filename)
               (w\<lparr>w_files := files2,
                  w_open := (w_open w)(w_nextfd w \<mapsto> filename),
                  w_nextfd := Suc (w_nextfd w)\<rparr>))))"

text \<open>
  \<^verbatim>\<open>(*os.File).Write\<close> of \<open>n\<close> bytes: on \<^verbatim>\<open>nil\<close> or a closed descriptor it fails;
  otherwise the file behind the descriptor grows by \<open>n\<close> bytes.
\<close>

definition File_Write :: "nat option \<Rightarrow> nat \<Rightarrow> world \<Rightarrow> (error + nat) \<times> world" where
  "File_Write fh n w =
     (case fh of
        None \<Rightarrow> (Inl ErrInvalid, w)
      | Some fd \<Rightarrow>
          (case w_open w fd of
             None \<Rightarrow> (Inl ErrInvalid, issue (SysWrite fd n) w)
           | Some p \<Rightarrow>
               if w_rejects w (SysWrite fd n)
               then (Inl (SysErr (SysWrite fd n)), issue (SysWrite fd n) w)
               else (Inr n,
                     issue (SysWrite fd n)
                       (case w_files w p of
                          None \<Rightarrow> w
                        | Some nd \<Rightarrow>
                            w\<lparr>w_files := (w_files w)(p \<mapsto>
                                 nd\<lparr>nd_size := nd_size nd + int n, nd_mtime := w_wall w\<rparr>)\<rparr>))))"

text \<open>\<^verbatim>\<open>rl.clock.Now()\<close> and the call of \<^verbatim>\<open>fileutil.GenerateFn\<close> at line 126.\<close>

definition clock_Now :: "clock \<Rightarrow> world \<Rightarrow> time" where
  "clock_Now c w = c (w_wall w)"

definition GenerateFn :: "strftime \<Rightarrow> clock \<Rightarrow> duration \<Rightarrow> world \<Rightarrow> string" where
  "GenerateFn pat c rotationTime' w = pat (clock_Now c w) rotationTime'"

subsection \<open>Cleanup: \<^verbatim>\<open>rotateNolock\<close> (lines 312-452)\<close>

text \<open>
  Lines 327-362, the symbolic link. The result is the error the routine returns from
  inside this block, or \<open>None\<close> when control reaches line 364. The message of line 341
  is kept without its two formatted arguments.
\<close>

definition link_step :: "RotateLogs \<Rightarrow> string \<Rightarrow> world \<Rightarrow> error option \<times> world" where
  "link_step rl filename w0 =
     (if linkName rl \<noteq> [] then
        (let tmpLinkName = filename @ ''_symlink'';
             linkDir = w_Dir w0 (linkName rl);
             baseDir = w_Dir w0 filename
         in case (if Contains (linkName rl) baseDir
                  then (case w_Rel w0 linkDir filename of
                          None \<Rightarrow> Inl (Wrap ErrRel ''failed to evaluate relative path'')
                        | Some tmp \<Rightarrow> Inr tmp)
                  else Inr filename) of
              Inl err \<Rightarrow> (Some err, w0)
            | Inr linkDest \<Rightarrow>
                (case os_Symlink linkDest tmpLinkName w0 of
                   (Some err, w1) \<Rightarrow> (Some (Wrap err ''failed to create new symlink''), w1)
                 | (None, w1) \<Rightarrow>
                     (case os_Stat linkDir w1 of
                        (st, w2) \<Rightarrow>
                          (case (if st = None then os_MkdirAll linkDir w2 else (None, w2)) of
                             (Some err, w3) \<Rightarrow>
                               (Some (Wrap err (''failed to create directory '' @ linkDir)), w3)
                           | (None, w3) \<Rightarrow>
                               (case os_Rename tmpLinkName (linkName rl) w3 of
                                  (Some err, w4) \<Rightarrow>
                                    (Some (Wrap err ''failed to rename new symlink''), w4)
                                | (None, w4) \<Rightarrow> (None, w4))))))
      else (None, w0))"

text \<open>
  Lines 377-401, the loop that fills \<^verbatim>\<open>toUnlink\<close>: lock and temporary-link names are
  skipped, then entries that cannot be examined, then (under \<^verbatim>\<open>maxAge\<close>) files modified
  after the cutoff, then (under \<^verbatim>\<open>rotationCount\<close>) symbolic links.
\<close>

fun collect_toUnlink ::
  "RotateLogs \<Rightarrow> time \<Rightarrow> string list \<Rightarrow> string list \<Rightarrow> world \<Rightarrow> string list \<times> world" where
  "collect_toUnlink rl cutoff [] toUnlink w = (toUnlink, w)"
| "collect_toUnlink rl cutoff (path # rest) toUnlink w =
     (if HasSuffix path ''_lock'' \<or> HasSuffix path ''_symlink''
      then collect_toUnlink rl cutoff rest toUnlink w
      else case os_Stat path w of
             (None, w1) \<Rightarrow> collect_toUnlink rl cutoff rest toUnlink w1
           | (Some fi, w1) \<Rightarrow>
               (case os_Lstat path w1 of
                  (None, w2) \<Rightarrow> collect_toUnlink rl cutoff rest toUnlink w2
                | (Some fl, w2) \<Rightarrow>
                    if maxAge rl > 0 \<and> nd_mtime fi > cutoff
                    then collect_toUnlink rl cutoff rest toUnlink w2
                    else if rotationCount rl > 0 \<and> is_symlink fl
                    then collect_toUnlink rl cutoff rest toUnlink w2
                    else collect_toUnlink rl cutoff rest (toUnlink @ [path]) w2))"

text \<open>
  Lines 415-431, the loop that looks for the oldest file: \<^verbatim>\<open>toUnlinkfile\<close> changes only
  at a file whose modification time in seconds is below \<^verbatim>\<open>minFileTime\<close>.
\<close>

fun oldest_file :: "string list \<Rightarrow> int \<Rightarrow> string \<Rightarrow> world \<Rightarrow> string \<times> world" where
  "oldest_file [] minFileTime toUnlinkfile w = (toUnlinkfile, w)"
| "oldest_file (path # rest) minFileTime toUnlinkfile w =
     (case os_Stat path w of
        (None, w1) \<Rightarrow> oldest_file rest minFileTime toUnlinkfile w1
      | (Some fi, w1) \<Rightarrow>
          (if Unix (nd_mtime fi) < minFileTime
           then oldest_file rest (Unix (nd_mtime fi)) path w1
           else oldest_file rest minFileTime toUnlinkfile w1))"

text \<open>
  Lines 364-451, the purge. \<^verbatim>\<open>toUnlinkfile\<close> starts as the empty string (line 403) and
  is assigned under \<^verbatim>\<open>rotationCount\<close> only; the goroutine of lines 444-449 then calls
  \<^verbatim>\<open>os.Remove(toUnlinkfile)\<close>, which is the only removal of a log file in the routine.
  The goroutine is run where it is started: it touches one path, which the deferred
  removal of the lock file cannot be.
\<close>

definition purge :: "RotateLogs \<Rightarrow> world \<Rightarrow> error option \<times> world" where
  "purge rl w0 =
     (if maxAge rl \<le> 0 \<and> rotationCount rl \<le> 0
      then (Some (ErrorsNew ''panic: maxAge and rotationCount are both set''), w0)
      else case filepath_Glob (globPattern rl) w0 of
             (None, w1) \<Rightarrow> (Some ErrBadPattern, w1)
           | (Some matches, w1) \<Rightarrow>
               (let cutoff = clock_Now (clock rl) w1 + (- 1) * maxAge rl
                in case collect_toUnlink rl cutoff matches [] w1 of
                     (toUnlink, w2) \<Rightarrow>
                       if rotationCount rl > 0
                       then (if rotationCount rl \<ge> length toUnlink then (None, w2)
                             else (case oldest_file toUnlink (Unix (w_wall w2)) [] w2 of
                                     (toUnlinkfile, w3) \<Rightarrow> (None, os_Remove toUnlinkfile w3)))
                       else (None, os_Remove [] w2)))"

text \<open>
  The whole routine. The lock file is created exclusively (line 314); when that fails
  the error is returned (line 317). Otherwise the deferred \<^verbatim>\<open>guard.Run()\<close> closes the
  descriptor and removes the lock file on every way out (lines 320-325; \<^verbatim>\<open>Run\<close> does not
  look at the flag \<^verbatim>\<open>Enable\<close> sets).
\<close>

definition rotateNolock :: "RotateLogs \<Rightarrow> string \<Rightarrow> world \<Rightarrow> error option \<times> world" where
  "rotateNolock rl filename w0 =
     (let lockfn = filename @ ''_lock'' in
      case os_OpenFile_excl lockfn w0 of
        (Inl err, w1) \<Rightarrow> (Some err, w1)
      | (Inr fh, w1) \<Rightarrow>
          (case (case link_step rl filename w1 of
                   (Some err, w2) \<Rightarrow> (Some err, w2)
                 | (None, w2) \<Rightarrow> purge rl w2) of
             (res, w3) \<Rightarrow> (res, os_Remove lockfn (File_Close (Some fh) w3))))"

subsection \<open>The rotation decision: \<^verbatim>\<open>getWriterNolock\<close> (lines 120-265)\<close>

text \<open>
  Lines 173-176: the number after the last dot of a path (the whole path when it has
  no dot), 0 when that is not a number.
\<close>

definition generation_in_name :: "string \<Rightarrow> int" where
  "generation_in_name path = Atoi (drop (nat (LastIndex path CHR ''.'' + 1)) path)"

text \<open>
  Lines 153-179, the scan of the first acquisition: a path without the substring
  \<^verbatim>\<open>rotation\<close> sets \<^verbatim>\<open>generation\<close> to 0; a path with it that can be examined and is
  at least as new (in seconds) as the newest seen so far gives its number, read after
  the last dot.
\<close>

fun scan_matches :: "string list \<Rightarrow> int \<Rightarrow> int \<Rightarrow> world \<Rightarrow> int \<times> int \<times> world" where
  "scan_matches [] generation' maxFileTime w = (generation', maxFileTime, w)"
| "scan_matches (path # rest) generation' maxFileTime w =
     (if \<not> Contains path ''rotation'' then scan_matches rest 0 maxFileTime w
      else case os_Stat path w of
             (None, w1) \<Rightarrow> scan_matches rest generation' maxFileTime w1
           | (Some fi, w1) \<Rightarrow>
               (if Unix (nd_mtime fi) \<ge> maxFileTime
                then scan_matches rest (generation_in_name path) (Unix (nd_mtime fi)) w1
                else scan_matches rest generation' maxFileTime w1))"

text \<open>Lines 208-214: the candidate name of a generation.\<close>

definition generation_name :: "string \<Rightarrow> int \<Rightarrow> string" where
  "generation_name filename g =
     (if g = 0 then filename else filename @ ''.rotation.'' @ Sprintf_d g)"

text \<open>
  Lines 207-224, the loop that looks for the file to use. It ends at the first name
  that cannot be examined or whose file is smaller than \<^verbatim>\<open>rotationSize\<close>; while every
  name is taken by a full file it does not end, which is the value \<open>None\<close>.
\<close>

partial_function (option) probe ::
  "RotateLogs \<Rightarrow> string \<Rightarrow> int \<Rightarrow> world \<Rightarrow> (string \<times> int \<times> world) option" where
  "probe rl filename g w =
     (case os_Stat (generation_name filename g) w of
        (None, w1) \<Rightarrow> Some (generation_name filename g, g, w1)
      | (Some tmpfi, w1) \<Rightarrow>
          if nd_size tmpfi < rotationSize rl
          then Some (generation_name filename g, g, w1)
          else probe rl filename (wrap64 (g + 1)) w1)"

text \<open>
  What lines 121-225 decide: hand back the current handle (line 197), fail (line 146),
  or open the file of this name and generation for this base filename.
\<close>

datatype decision =
    Reuse "nat option"
  | Failed error
  | NewFile string string int

definition choose_name ::
  "RotateLogs \<Rightarrow> bool \<Rightarrow> string \<Rightarrow> int \<Rightarrow> world \<Rightarrow> (decision \<times> world) option" where
  "choose_name rl forceNewFile' baseFn g w =
     (if forceNewFile'
      then (case probe rl baseFn g w of
              None \<Rightarrow> None
            | Some (name, g', w1) \<Rightarrow> Some (NewFile baseFn name g', w1))
      else Some (NewFile baseFn baseFn g, w))"

text \<open>
  Lines 130-135: \<^verbatim>\<open>sizeRotation\<close>, from the result of \<^verbatim>\<open>os.Stat(rl.curFn)\<close>.
\<close>

definition sizeRotation_of :: "RotateLogs \<Rightarrow> node option \<Rightarrow> bool" where
  "sizeRotation_of rl st =
     (case st of
        None \<Rightarrow> False
      | Some fi \<Rightarrow> rotationSize rl > 0 \<and> rotationSize rl \<le> nd_size fi)"

text \<open>
  The local \<^verbatim>\<open>forceNewFile\<close> is true on every way to line 202 (lines 185 and 199), so
  the loop always runs there.
\<close>

definition resolve :: "bool \<Rightarrow> RotateLogs \<Rightarrow> world \<Rightarrow> (decision \<times> world) option" where
  "resolve useGenerationalNames rl w0 =
     (let baseFn = GenerateFn (pattern rl) (clock rl) (rotationTime rl) w0 in
      case os_Stat (curFn rl) w0 of
        (st, w1) \<Rightarrow>
          (let sizeRotation = sizeRotation_of rl st
           in if baseFn \<noteq> curBaseFn rl then
                (if curBaseFn rl = [] then
                   (case filepath_Glob (globPattern rl) w1 of
                      (None, w2) \<Rightarrow>
                        Some (Failed (Wrap ErrBadPattern
                                (''failed to glob directory '' @ globPattern rl)), w2)
                    | (Some matches, w2) \<Rightarrow>
                        (case scan_matches matches (generation rl) 0 w2 of
                           (g, maxFileTime, w3) \<Rightarrow> choose_name rl True baseFn g w3))
                 else choose_name rl True baseFn 0 w1)
              else if \<not> useGenerationalNames \<and> \<not> sizeRotation
              then Some (Reuse (outFh rl), w1)
              else choose_name rl True baseFn (wrap64 (generation rl + 1)) w1))"

text \<open>Lines 251-264: the new file becomes the current one.\<close>

definition adopt ::
  "RotateLogs \<Rightarrow> string \<Rightarrow> string \<Rightarrow> int \<Rightarrow> nat \<Rightarrow> world \<Rightarrow> (error + nat option) \<times> RotateLogs \<times> world" where
  "adopt rl baseFn filename g fh w =
     (let w1 = File_Close (outFh rl) w;
          w2 = (case eventHandler rl of
                  None \<Rightarrow> w1
                | Some h \<Rightarrow> w1\<lparr>w_events := w_events w1 @ [(curFn rl, filename)]\<rparr>)
      in (Inr (Some fh),
          rl\<lparr>outFh := Some fh, curBaseFn := baseFn, curFn := filename, generation := g\<rparr>,
          w2))"

text \<open>Lines 227-264: open the file, run the cleanup, adopt.\<close>

definition open_and_adopt ::
  "bool \<Rightarrow> RotateLogs \<Rightarrow> string \<Rightarrow> string \<Rightarrow> int \<Rightarrow> world \<Rightarrow> (error + nat option) \<times> RotateLogs \<times> world" where
  "open_and_adopt bailOnRotateFail rl baseFn filename g w0 =
     (case fileutil_CreateFile filename w0 of
        (Inl err, w1) \<Rightarrow>
          (Inl (Wrap err (''failed to create a new file '' @ filename)), rl, w1)
      | (Inr fh, w1) \<Rightarrow>
          (case rotateNolock rl filename w1 of
             (Some err, w2) \<Rightarrow>
               if bailOnRotateFail
               then (Inl (Wrap err ''failed to rotate''), rl, File_Close (Some fh) w2)
               else adopt rl baseFn filename g fh
                      (w2\<lparr>w_stderr := w_stderr w2 @ [Wrap err ''failed to rotate'']\<rparr>)
           | (None, w2) \<Rightarrow> adopt rl baseFn filename g fh w2))"

definition getWriterNolock ::
  "bool \<Rightarrow> bool \<Rightarrow> RotateLogs \<Rightarrow> world \<Rightarrow> ((error + nat option) \<times> RotateLogs \<times> world) option" where
  "getWriterNolock bailOnRotateFail useGenerationalNames rl w0 =
     (case resolve useGenerationalNames rl w0 of
        None \<Rightarrow> None
      | Some (Reuse fh, w1) \<Rightarrow> Some (Inr fh, rl, w1)
      | Some (Failed err, w1) \<Rightarrow> Some (Inl err, rl, w1)
      | Some (NewFile baseFn filename g, w1) \<Rightarrow>
          Some (open_and_adopt bailOnRotateFail rl baseFn filename g w1))"

subsection \<open>The public calls: \<^verbatim>\<open>Write\<close>, \<^verbatim>\<open>Rotate\<close>, \<^verbatim>\<open>Close\<close>\<close>

definition Write :: "string \<Rightarrow> RotateLogs \<Rightarrow> world \<Rightarrow> ((error + nat) \<times> RotateLogs \<times> world) option" where
  "Write p rl w0 =
     (case getWriterNolock False False rl w0 of
        None \<Rightarrow> None
      | Some (Inl err, rl1, w1) \<Rightarrow>
          Some (Inl (Wrap err ''failed to acquite target io.Writer''), rl1, w1)
      | Some (Inr out, rl1, w1) \<Rightarrow>
          (case File_Write out (length p) w1 of (res, w2) \<Rightarrow> Some (res, rl1, w2)))"

definition Rotate :: "RotateLogs \<Rightarrow> world \<Rightarrow> (error option \<times> RotateLogs \<times> world) option" where
  "Rotate rl w0 =
     (case getWriterNolock True True rl w0 of
        None \<Rightarrow> None
      | Some (Inl err, rl1, w1) \<Rightarrow> Some (Some err, rl1, w1)
      | Some (Inr out, rl1, w1) \<Rightarrow> Some (None, rl1, w1))"

definition Close :: "RotateLogs \<Rightarrow> world \<Rightarrow> error option \<times> RotateLogs \<times> world" where
  "Close rl w0 =
     (if outFh rl = None then (None, rl, w0)
      else (None, rl\<lparr>outFh := None\<rparr>, File_Close (outFh rl) w0))"

text \<open>A sequence of public calls on one engine; the results of the calls are dropped.\<close>

datatype call = CallWrite string | CallRotate | CallClose

fun step :: "call \<Rightarrow> RotateLogs \<times> world \<Rightarrow> (RotateLogs \<times> world) option" where
  "step (CallWrite p) (rl, w) = map_option snd (Write p rl w)"
| "step CallRotate (rl, w) = map_option snd (Rotate rl w)"
| "step CallClose (rl, w) = Some (snd (Close rl w))"

fun run :: "call list \<Rightarrow> RotateLogs \<times> world \<Rightarrow> (RotateLogs \<times> world) option" where
  "run [] s = Some s"
| "run (c # cs) s = (case step c s of None \<Rightarrow> None | Some s' \<Rightarrow> run cs s')"

subsection \<open>Notions of the specification\<close>

text \<open>
  What the caller configured: the value of the last \<^verbatim>\<open>MaxAge\<close> option and of the last
  \<^verbatim>\<open>RotationCount\<close> option in the list, 0 when there is none.
\<close>

fun given_maxAge :: "Option list \<Rightarrow> duration" where
  "given_maxAge [] = 0"
| "given_maxAge (optkeyMaxAge d # rest) =
     (if \<exists>e \<in> set rest. case e of optkeyMaxAge x \<Rightarrow> True | _ \<Rightarrow> False
      then given_maxAge rest else d)"
| "given_maxAge (other # rest) = given_maxAge rest"

fun given_rotationCount :: "Option list \<Rightarrow> nat" where
  "given_rotationCount [] = 0"
| "given_rotationCount (optkeyRotationCount n # rest) =
     (if \<exists>e \<in> set rest. case e of optkeyRotationCount x \<Rightarrow> True | _ \<Rightarrow> False
      then given_rotationCount rest else n)"
| "given_rotationCount (other # rest) = given_rotationCount rest"


text \<open>"Exactly one of maxAge > 0 and rotationCount > 0 holds."\<close>

definition exactly_one_retention :: "RotateLogs \<Rightarrow> bool" where
  "exactly_one_retention rl = ((0 < maxAge rl) \<noteq> (0 < rotationCount rl))"

text \<open>
  "A candidate whose file already exists with size at or above the size threshold": the
  name can be examined and its size is not below \<^verbatim>\<open>rotationSize\<close>.
\<close>

definition exists_full :: "RotateLogs \<Rightarrow> world \<Rightarrow> string \<Rightarrow> bool" where
  "exists_full rl w name =
     (case fst (os_Stat name w) of
        None \<Rightarrow> False
      | Some fi \<Rightarrow> rotationSize rl \<le> nd_size fi)"

text \<open>
  The modification time in seconds that the scan reads for a path, when \<^verbatim>\<open>os.Stat\<close>
  succeeds.
\<close>

definition stat_seconds :: "world \<Rightarrow> string \<Rightarrow> int option" where
  "stat_seconds w p = map_option (\<lambda>fi. Unix (nd_mtime fi)) (fst (os_Stat p w))"

text \<open>"The policy fields are never mutated": every field but the four of the state.\<close>

definition same_policy :: "RotateLogs \<Rightarrow> RotateLogs \<Rightarrow> bool" where
  "same_policy rl rl' =
     (rl' = rl\<lparr>outFh := outFh rl', curBaseFn := curBaseFn rl', curFn := curFn rl',
              generation := generation rl'\<rparr>)"

text \<open>Two worlds that differ in the list of calls issued at most.\<close>

definition only_trace :: "world \<Rightarrow> world \<Rightarrow> bool" where
  "only_trace w w' = (w' = w\<lparr>w_trace := w_trace w'\<rparr>)"

subsection \<open>A concrete directory\<close>

text \<open>
  The pattern \<^verbatim>\<open>app.%Y\<close>, whose glob is \<^verbatim>\<open>app.*\<close> and whose base filename is
  \<^verbatim>\<open>app.2026\<close> throughout. \<open>example_Glob\<close> returns the entries that exist among the
  names below, in the byte order \<^verbatim>\<open>filepath.Glob\<close> gives.
\<close>

definition Second :: duration where "Second = 1000000000"

definition example_pattern :: strftime where
  "example_pattern = (\<lambda>t d. ''app.2026'')"

definition example_strftime_New :: "string \<Rightarrow> strftime option" where
  "example_strftime_New p = (if p = ''app.%Y'' then Some example_pattern else None)"

definition example_Glob :: "(string \<rightharpoonup> node) \<Rightarrow> string \<Rightarrow> string list option" where
  "example_Glob files pat =
     (if pat = ''app.*''
      then Some (filter (\<lambda>p. files p \<noteq> None)
             [''app.2025'', ''app.2026'', ''app.2026.rotation.1'', ''app.2026.rotation.1_lock'',
              ''app.2026.rotation.2'', ''app.2026.rotation.2_lock'', ''app.2026_lock''])
      else Some [])"

definition regular :: "int \<Rightarrow> time \<Rightarrow> node" where
  "regular sz mt = \<lparr>nd_size = sz, nd_mtime = mt, nd_target = None\<rparr>"

text \<open>A world with the given entries at the given instant, where no call is refused.\<close>

definition example_world :: "(string \<times> node) list \<Rightarrow> time \<Rightarrow> world" where
  "example_world entries now =
     \<lparr>w_files = map_of entries, w_rejects = (\<lambda>c. False), w_trace = [], w_open = Map.empty,
      w_nextfd = 3, w_wall = now, w_stderr = [], w_events = [],
      w_Glob = example_Glob, w_Dir = (\<lambda>p. ''.''), w_Rel = (\<lambda>d p. Some p)\<rparr>"

text \<open>An engine as \<^verbatim>\<open>New\<close> leaves it, with the retention and size settings given.\<close>

definition example_rl :: "duration \<Rightarrow> nat \<Rightarrow> int \<Rightarrow> RotateLogs" where
  "example_rl age count sz =
     \<lparr>clock = Local, curBaseFn = [], curFn = [], eventHandler = None, generation = 0,
      globPattern = ''app.*'', linkName = [], maxAge = age, outFh = None,
      pattern = example_pattern, rotationTime = 24 * Hour, rotationSize = sz,
      rotationCount = count, forceNewFile = False\<rparr>"

text \<open>The same engine in the middle of a run, writing to \<^verbatim>\<open>app.2026\<close> on descriptor 3.\<close>

definition running_rl :: "duration \<Rightarrow> nat \<Rightarrow> int \<Rightarrow> RotateLogs" where
  "running_rl age count sz =
     (example_rl age count sz)\<lparr>curBaseFn := ''app.2026'', curFn := ''app.2026'', outFh := Some 3\<rparr>"

text \<open>
  The error of an exclusive creation that finds the entry present: the system's own
  refusal if it refuses the call, "file exists" otherwise.
\<close>

definition lock_error :: "world \<Rightarrow> string \<Rightarrow> error" where
  "lock_error w lockfn =
     (if w_rejects w (SysOpenExcl lockfn) then SysErr (SysOpenExcl lockfn) else ErrExist lockfn)"

text \<open>
  A running engine whose file is full, in a world that refuses to create the next
  generation.
\<close>

definition refusing_world :: world where
  "refusing_world =
     (example_world [(''app.2026'', regular 20 0)] Hour)
       \<lparr>w_rejects := (\<lambda>c. c = SysCreateFile ''app.2026.rotation.1''),
        w_open := [3 \<mapsto> ''app.2026'']\<rparr>"

text \<open>A directory where the lock marker of \<^verbatim>\<open>app.2026\<close> is present.\<close>

definition locked_world :: world where
  "locked_world = example_world [(''app.2026_lock'', regular 0 0)] Hour"

text \<open>
  A directory found at a restart, 300 seconds after the epoch: generation 1 was written
  to after generation 2.
\<close>

definition restart_world :: world where
  "restart_world =
     example_world [(''app.2026'', regular 20 (50 * Second)),
                    (''app.2026.rotation.1'', regular 5 (200 * Second)),
                    (''app.2026.rotation.2'', regular 5 (100 * Second))] (300 * Second)"

text \<open>
  Ten hours after the epoch: \<^verbatim>\<open>app.2025\<close> was last modified ten hours ago,
  \<^verbatim>\<open>app.2026\<close> has just been created.
\<close>

definition aged_world :: world where
  "aged_world =
     example_world [(''app.2025'', regular 10 0), (''app.2026'', regular 0 (10 * Hour))]
       (10 * Hour)"

text \<open>
  At 1000.9 seconds: \<^verbatim>\<open>app.2025\<close> was last written at 1000.2 seconds, \<^verbatim>\<open>app.2026\<close> has
  just been created.
\<close>

definition crowded_world :: world where
  "crowded_world =
     example_world [(''app.2025'', regular 10 (1000 * Second + 200000000)),
                    (''app.2026'', regular 0 (1000 * Second + 900000000))]
       (1000 * Second + 900000000)"

text \<open>The engine of \<open>example_rl 0 2 0\<close> after a write, a forced rotation and a close.\<close>

definition rotated_rl :: RotateLogs where
  "rotated_rl =
     (example_rl 0 2 0)\<lparr>outFh := None, curBaseFn := ''app.2026'',
                         curFn := ''app.2026.rotation.1'', generation := 1\<rparr>"

lemmas example_defs =
  example_world_def example_rl_def running_rl_def example_Glob_def example_pattern_def
  regular_def Local_def Hour_def Second_def HasSuffix_def HasPrefix_def

lemmas engine_defs =
  getWriterNolock_def resolve_def choose_name_def open_and_adopt_def adopt_def
  rotateNolock_def link_step_def purge_def Write_def Rotate_def Close_def
  sizeRotation_of_def generation_name_def generation_in_name_def
  exists_full_def Let_def

lemmas os_defs =
  os_Stat_def os_Lstat_def issue_def filepath_Glob_def os_OpenFile_excl_def File_Close_def
  File_Write_def os_Remove_def os_Symlink_def os_MkdirAll_def os_Rename_def
  fileutil_CreateFile_def new_node_def clock_Now_def GenerateFn_def Unix_def is_symlink_def

section \<open>Construction\<close>

text \<open>The option loop keeps the value given last; a negative \<^verbatim>\<open>MaxAge\<close> is stored as 0.\<close>

lemma maxAge_after_options:
  "s_maxAge (foldl apply_option s options) =
     (if \<exists>e \<in> set options. case e of optkeyMaxAge x \<Rightarrow> True | _ \<Rightarrow> False
      then (if given_maxAge options < 0 then 0 else given_maxAge options) else s_maxAge s)"
proof (induction options arbitrary: s)
  case Nil
  then show ?case by simp
next
  case (Cons a options)
  then show ?case by (cases a) auto
qed

lemma rotationCount_after_options:
  "s_rotationCount (foldl apply_option s options) =
     (if \<exists>e \<in> set options. case e of optkeyRotationCount x \<Rightarrow> True | _ \<Rightarrow> False
      then given_rotationCount options else s_rotationCount s)"
proof (induction options arbitrary: s)
  case Nil
  then show ?case by simp
next
  case (Cons a options)
  then show ?case by (cases a) auto
qed

lemma given_maxAge_unset:
  "\<not> (\<exists>e \<in> set options. case e of optkeyMaxAge x \<Rightarrow> True | _ \<Rightarrow> False) \<Longrightarrow>
   given_maxAge options = 0"
  by (induction options rule: given_maxAge.induct) auto

lemma given_rotationCount_unset:
  "\<not> (\<exists>e \<in> set options. case e of optkeyRotationCount x \<Rightarrow> True | _ \<Rightarrow> False) \<Longrightarrow>
   given_rotationCount options = 0"
  by (induction options rule: given_rotationCount.induct) auto

lemma settings_maxAge:
  "s_maxAge (foldl apply_option initial_settings options) =
     (if given_maxAge options < 0 then 0 else given_maxAge options)"
  using given_maxAge_unset [of options]
  by (auto simp add: maxAge_after_options initial_settings_def)

lemma settings_rotationCount:
  "s_rotationCount (foldl apply_option initial_settings options) = given_rotationCount options"
  using given_rotationCount_unset [of options]
  by (auto simp add: rotationCount_after_options initial_settings_def)




text \<open>
  Claim C4. \<^verbatim>\<open>New\<close> fails when \<^verbatim>\<open>MaxAge\<close> and \<^verbatim>\<open>RotationCount\<close> are both configured
  positive (with the error of line 80 when the pattern compiles, with the pattern's
  error otherwise); when both are zero or unset and the pattern compiles, \<^verbatim>\<open>New\<close>
  succeeds and the engine's \<^verbatim>\<open>maxAge\<close> is 7 days.
\<close>

theorem New_retention_modes:
  "(0 < given_maxAge options \<and> 0 < given_rotationCount options \<longrightarrow>
      isl (New strftime_New p options)) \<and>
   (strftime_New p \<noteq> None \<and> 0 < given_maxAge options \<and> 0 < given_rotationCount options \<longrightarrow>
      New strftime_New p options =
        Inl (ErrorsNew ''options MaxAge and RotationCount cannot be both set'')) \<and>
   (strftime_New p \<noteq> None \<and> given_maxAge options = 0 \<and> given_rotationCount options = 0 \<longrightarrow>
      (\<exists>rl. New strftime_New p options = Inr rl \<and> maxAge rl = 7 * 24 * Hour \<and>
            rotationCount rl = 0))"
  by (auto simp add: New_def Let_def settings_maxAge settings_rotationCount split: option.splits)

theorem New_retention_modes_witness:
  "isl (New example_strftime_New ''app.%Y'' [optkeyMaxAge Hour, optkeyRotationCount 3]) \<and>
   New example_strftime_New ''app.%Y'' [optkeyMaxAge Hour, optkeyRotationCount 3] =
     Inl (ErrorsNew ''options MaxAge and RotationCount cannot be both set'') \<and>
   (\<exists>rl. New example_strftime_New ''app.%Y'' [optkeyMaxAge 0] = Inr rl \<and>
         maxAge rl = 7 * 24 * Hour \<and> rotationCount rl = 0)"
  using New_retention_modes [of "[optkeyMaxAge Hour, optkeyRotationCount 3]"
          example_strftime_New "''app.%Y''"]
    New_retention_modes [of "[optkeyMaxAge 0]" example_strftime_New "''app.%Y''"]
  by (simp add: example_strftime_New_def Hour_def)



section \<open>Calls that only read\<close>

text \<open>\<^verbatim>\<open>os.Stat\<close> changes the list of calls and nothing else, and does not depend on it.\<close>

lemma os_Stat_world: "snd (os_Stat p w) = issue (SysStat p) w"
  by (simp add: os_Stat_def split: option.splits)

lemma os_Stat_trace [simp]: "fst (os_Stat p (w\<lparr>w_trace := t\<rparr>)) = fst (os_Stat p w)"
  by (simp add: os_Stat_def issue_def split: option.splits)

lemma os_Stat_issue [simp]: "fst (os_Stat p (issue c w)) = fst (os_Stat p w)"
  by (simp add: issue_def)

lemma os_Stat_eq: "os_Stat p w = (fst (os_Stat p w), issue (SysStat p) w)"
  by (simp add: os_Stat_world [symmetric])

lemma stat_seconds_issue [simp]: "stat_seconds (issue c w) p = stat_seconds w p"
  by (simp add: stat_seconds_def)

lemma only_trace_refl [simp]: "only_trace w w"
  by (simp add: only_trace_def)

lemma only_trace_issue [simp]: "only_trace w (issue c w') = only_trace w w'"
  by (cases w, cases w') (auto simp add: only_trace_def issue_def)

lemma only_trace_issue_left [simp]: "only_trace (issue c w) w' = only_trace w w'"
  by (cases w, cases w') (auto simp add: only_trace_def issue_def)

lemma only_trace_trans: "only_trace a b \<Longrightarrow> only_trace b c \<Longrightarrow> only_trace a c"
  by (cases a, cases b, cases c) (auto simp add: only_trace_def)

lemma only_trace_fields:
  "only_trace w w' \<Longrightarrow>
   w_files w' = w_files w \<and> w_open w' = w_open w \<and> w_rejects w' = w_rejects w \<and>
   w_stderr w' = w_stderr w \<and> w_events w' = w_events w \<and> w_nextfd w' = w_nextfd w \<and>
   w_wall w' = w_wall w"
  by (cases w, cases w') (auto simp add: only_trace_def)

text \<open>The loop of lines 207-224 only examines files.\<close>

lemma probe_only_trace_aux:
  assumes a: "probe rl filename g w = Some y"
  shows "\<forall>w0. only_trace w0 w \<longrightarrow> only_trace w0 (snd (snd y))"
proof (rule probe.raw_induct
    [where P = "\<lambda>rl filename g w y. \<forall>w0. only_trace w0 w \<longrightarrow> only_trace w0 (snd (snd y))",
      OF _ a])
  fix f rl filename g w y
  assume IH: "\<And>rl filename g w y. f rl filename g w = Some y \<Longrightarrow>
                \<forall>w0. only_trace w0 w \<longrightarrow> only_trace w0 (snd (snd y))"
    and eq: "(case os_Stat (generation_name filename g) w of
                (None, w1) \<Rightarrow> Some (generation_name filename g, g, w1)
              | (Some tmpfi, w1) \<Rightarrow>
                  if nd_size tmpfi < rotationSize rl
                  then Some (generation_name filename g, g, w1)
                  else f rl filename (wrap64 (g + 1)) w1) = Some y"
  show "\<forall>w0. only_trace w0 w \<longrightarrow> only_trace w0 (snd (snd y))"
  proof (intro allI impI)
    fix w0 assume w0: "only_trace w0 w"
    show "only_trace w0 (snd (snd y))"
      using eq w0 IH
      by (subst (asm) os_Stat_eq) (auto split: option.splits if_splits)
  qed
qed

lemma probe_only_trace:
  "probe rl filename g w = Some (name, n, w') \<Longrightarrow> only_trace w w'"
  using probe_only_trace_aux [of rl filename g w "(name, n, w')"] by simp

lemma scan_matches_only_trace_aux:
  "only_trace w0 w \<Longrightarrow> only_trace w0 (snd (snd (scan_matches ms g mx w)))"
proof (induction ms arbitrary: g mx w)
  case Nil
  then show ?case by simp
next
  case (Cons path rest)
  show ?case
    by (subst scan_matches.simps, subst os_Stat_eq)
       (auto simp add: Cons split: option.splits)
qed

lemma scan_matches_only_trace:
  "scan_matches ms g mx w = (g', mx', w') \<Longrightarrow> only_trace w w'"
  using scan_matches_only_trace_aux [of w w ms g mx] by simp

lemma choose_name_only_trace:
  "choose_name rl f baseFn g w = Some (d, w') \<Longrightarrow> only_trace w w'"
  by (auto simp add: choose_name_def dest: probe_only_trace split: if_splits option.splits)

lemma resolve_only_trace:
  assumes "resolve u rl w = Some (d, w')"
  shows "only_trace w w'"
  using assms
  by (subst (asm) resolve_def, subst (asm) os_Stat_eq)
     (auto simp add: Let_def filepath_Glob_def split: if_splits option.splits prod.splits
        dest!: choose_name_only_trace scan_matches_only_trace
        intro: only_trace_trans)

section \<open>The name of the new file\<close>

lemma exists_full_issue [simp]: "exists_full rl (issue c w) name = exists_full rl w name"
  by (simp add: exists_full_def)

lemma wrap64_id: "MinInt64 \<le> i \<Longrightarrow> i \<le> MaxInt64 \<Longrightarrow> wrap64 i = i"
  by (simp add: wrap64_def MinInt64_def MaxInt64_def)

lemma probe_stops:
  "\<not> exists_full rl w (generation_name filename g) \<Longrightarrow>
   probe rl filename g w =
     Some (generation_name filename g, g, issue (SysStat (generation_name filename g)) w)"
  by (subst probe.simps, subst os_Stat_eq) (simp add: exists_full_def split: option.splits)

lemma probe_skips:
  "exists_full rl w (generation_name filename g) \<Longrightarrow>
   probe rl filename g w =
     probe rl filename (wrap64 (g + 1)) (issue (SysStat (generation_name filename g)) w)"
  by (subst probe.simps, subst os_Stat_eq) (simp add: exists_full_def split: option.splits)

text \<open>
  The loop ends, at the first free name: by induction on the distance to it.
\<close>

lemma probe_first_free:
  "MinInt64 \<le> g \<Longrightarrow> g \<le> n \<Longrightarrow> n \<le> MaxInt64 \<Longrightarrow>
   \<forall>k. g \<le> k \<and> k < n \<longrightarrow> exists_full rl w (generation_name filename k) \<Longrightarrow>
   \<not> exists_full rl w (generation_name filename n) \<Longrightarrow>
   \<exists>w'. probe rl filename g w = Some (generation_name filename n, n, w')"
proof (induction "nat (n - g)" arbitrary: g w)
  case 0
  then have "g = n" by simp
  with 0 show ?case by (simp add: probe_stops)
next
  case (Suc d)
  then have lt: "g < n" by linarith
  with Suc.prems have full: "exists_full rl w (generation_name filename g)" by simp
  have w: "wrap64 (g + 1) = g + 1"
    using Suc.prems lt by (intro wrap64_id) linarith+
  let ?w1 = "issue (SysStat (generation_name filename g)) w"
  have "\<exists>w'. probe rl filename (g + 1) ?w1 = Some (generation_name filename n, n, w')"
  proof (rule Suc.hyps(1))
    show "d = nat (n - (g + 1))" using Suc.hyps(2) by linarith
    show "MinInt64 \<le> g + 1" using Suc.prems by linarith
    show "g + 1 \<le> n" using lt by linarith
    show "n \<le> MaxInt64" by fact
    show "\<forall>k. g + 1 \<le> k \<and> k < n \<longrightarrow> exists_full rl ?w1 (generation_name filename k)"
      using Suc.prems by simp
    show "\<not> exists_full rl ?w1 (generation_name filename n)"
      using Suc.prems by simp
  qed
  then show ?case by (simp add: probe_skips [OF full] w)
qed

text \<open>
  Claim C6. When a new file is forced (\<open>choose_name\<close> with \<^verbatim>\<open>forceNewFile\<close> true), the
  names are tried upward from the computed generation \<open>g\<close>: generation 0 is the bare base
  filename, any other generation \<open>n\<close> is the base filename followed by
  \<^verbatim>\<open>.rotation.<n>\<close>; if every generation from \<open>g\<close> up to \<open>n\<close> (excluded) has a file that
  exists with size at or above \<^verbatim>\<open>rotationSize\<close>, and generation \<open>n\<close> has not, then the loop
  ends and selects the name and the generation \<open>n\<close>, having done nothing but examine
  files. "Exists" is what the code tests: \<^verbatim>\<open>os.Stat\<close> succeeds. The generations are
  those of a 64-bit \<^verbatim>\<open>int\<close>.
\<close>

theorem probe_selects_first_free:
  assumes "MinInt64 \<le> g" and "g \<le> n" and "n \<le> MaxInt64"
    and "\<forall>k. g \<le> k \<and> k < n \<longrightarrow> exists_full rl w (generation_name baseFn k)"
    and "\<not> exists_full rl w (generation_name baseFn n)"
  shows "generation_name baseFn 0 = baseFn \<and>
         (n \<noteq> 0 \<longrightarrow> generation_name baseFn n = baseFn @ ''.rotation.'' @ Sprintf_d n) \<and>
         (\<exists>w'. choose_name rl True baseFn g w =
                 Some (NewFile baseFn (generation_name baseFn n) n, w') \<and>
               only_trace w w')"
proof -
  obtain w' where p: "probe rl baseFn g w = Some (generation_name baseFn n, n, w')"
    using probe_first_free [OF assms] by blast
  then have "only_trace w w'" by (rule probe_only_trace)
  with p show ?thesis by (simp add: choose_name_def generation_name_def)
qed

theorem probe_selects_first_free_witness:
  "\<exists>w'. choose_name (running_rl (7 * 24 * Hour) 0 10) True ''app.2026'' 0
          (example_world [(''app.2026'', regular 20 0), (''app.2026.rotation.1'', regular 15 0),
                          (''app.2026.rotation.2'', regular 3 0)] Hour)
        = Some (NewFile ''app.2026'' ''app.2026.rotation.2'' 2, w')"
proof -
  let ?rl = "running_rl (7 * 24 * Hour) 0 10"
  let ?w = "example_world [(''app.2026'', regular 20 0), (''app.2026.rotation.1'', regular 15 0),
                          (''app.2026.rotation.2'', regular 3 0)] Hour"
  have f0: "exists_full ?rl ?w (generation_name ''app.2026'' 0)"
    by (simp add: exists_full_def generation_name_def os_Stat_def example_defs)
  have f1: "exists_full ?rl ?w (generation_name ''app.2026'' 1)"
    by (simp add: exists_full_def generation_name_def os_Stat_def example_defs Sprintf_d_def
        decimal.simps digit_char_def)
  have f2: "\<not> exists_full ?rl ?w (generation_name ''app.2026'' 2)"
    by (simp add: exists_full_def generation_name_def os_Stat_def example_defs Sprintf_d_def
        decimal.simps digit_char_def)
  have all: "\<forall>k. 0 \<le> k \<and> k < 2 \<longrightarrow> exists_full ?rl ?w (generation_name ''app.2026'' k)"
  proof (intro allI impI)
    fix k :: int assume "0 \<le> k \<and> k < 2"
    then have "k = 0 \<or> k = 1" by linarith
    with f0 f1 show "exists_full ?rl ?w (generation_name ''app.2026'' k)" by auto
  qed
  have n: "generation_name ''app.2026'' 2 = ''app.2026.rotation.2''"
    by (simp add: generation_name_def Sprintf_d_def decimal.simps digit_char_def)
  have lo: "MinInt64 \<le> 0" and le: "(0::int) \<le> 2" and hi: "2 \<le> MaxInt64"
    by (simp_all add: MinInt64_def MaxInt64_def)
  from probe_selects_first_free [OF lo le hi all f2]
  obtain w' where "choose_name ?rl True ''app.2026'' 0 ?w =
      Some (NewFile ''app.2026'' (generation_name ''app.2026'' 2) 2, w')"
    by blast
  then show ?thesis unfolding n by blast
qed

section \<open>Writing within one time bucket\<close>

text \<open>
  Claim C5, as the code has it. When the freshly resolved base filename is the current
  one, generational naming is not requested and the size threshold is not exceeded, the
  acquisition returns the current handle and leaves every field of the engine as it
  was; the world is as it was too (no file created, none changed, no descriptor opened
  or closed) but for one call: the \<^verbatim>\<open>os.Stat\<close> of the current file at line 130, which
  comes before the decision. \<^verbatim>\<open>bailOnRotateFail\<close> plays no part.
\<close>

theorem getWriterNolock_same_bucket:
  assumes "GenerateFn (pattern rl) (clock rl) (rotationTime rl) w = curBaseFn rl"
    and "\<not> useGenerationalNames"
    and "\<not> sizeRotation_of rl (fst (os_Stat (curFn rl) w))"
  shows "getWriterNolock bailOnRotateFail useGenerationalNames rl w =
           Some (Inr (outFh rl), rl, w\<lparr>w_trace := w_trace w @ [SysStat (curFn rl)]\<rparr>)"
  using assms
  by (simp add: getWriterNolock_def resolve_def Let_def, subst os_Stat_eq)
     (simp add: issue_def)

theorem getWriterNolock_same_bucket_witness:
  "getWriterNolock False False (running_rl (7 * 24 * Hour) 0 10)
     (example_world [(''app.2026'', regular 5 0)] Hour) =
   Some (Inr (Some 3), running_rl (7 * 24 * Hour) 0 10,
         (example_world [(''app.2026'', regular 5 0)] Hour)\<lparr>w_trace := [SysStat ''app.2026'']\<rparr>)"
  using getWriterNolock_same_bucket [of "running_rl (7 * 24 * Hour) 0 10"
      "example_world [(''app.2026'', regular 5 0)] Hour" False False]
  by (simp add: GenerateFn_def clock_Now_def sizeRotation_of_def os_Stat_def example_defs)

text \<open>
  "No filesystem I/O occurs" does not hold: in the same bucket, with the size threshold
  switched off, the acquisition has examined \<^verbatim>\<open>app.2026\<close>.
\<close>

theorem same_bucket_stat_counterexample:
  "w_trace (example_world [(''app.2026'', regular 5 0)] Hour) = [] \<and>
   map_option (w_trace \<circ> snd \<circ> snd)
     (getWriterNolock False False (running_rl (7 * 24 * Hour) 0 0)
        (example_world [(''app.2026'', regular 5 0)] Hour)) = Some [SysStat ''app.2026'']"
  by (simp add: getWriterNolock_def resolve_def Let_def GenerateFn_def clock_Now_def
      sizeRotation_of_def os_Stat_def issue_def example_defs)

section \<open>Failure to open the new file\<close>

text \<open>
  Claim C8. When lines 121-225 have settled on a file to open and
  \<^verbatim>\<open>fileutil.CreateFile\<close> fails on it, the acquisition returns that error (wrapped with
  the message of line 229) and the engine is unchanged in every field. Up to the call
  of \<^verbatim>\<open>CreateFile\<close> nothing in the world has changed but the list of calls, and after
  it the engine does nothing more: the old descriptor has not been closed.
\<close>

theorem getWriterNolock_create_fails:
  assumes "resolve useGenerationalNames rl w = Some (NewFile baseFn filename g, w1)"
    and "fst (fileutil_CreateFile filename w1) = Inl err"
  shows "getWriterNolock bailOnRotateFail useGenerationalNames rl w =
           Some (Inl (Wrap err (''failed to create a new file '' @ filename)), rl,
                 snd (fileutil_CreateFile filename w1)) \<and>
         only_trace w w1"
proof -
  have "only_trace w w1" using assms(1) by (rule resolve_only_trace)
  then show ?thesis
    using assms
    by (cases "fileutil_CreateFile filename w1")
       (simp add: getWriterNolock_def open_and_adopt_def)
qed

lemma refusing_resolve:
  "resolve False (running_rl (7 * 24 * Hour) 0 10) refusing_world =
     Some (NewFile ''app.2026'' ''app.2026.rotation.1'' 1,
           refusing_world\<lparr>w_trace := [SysStat ''app.2026'', SysStat ''app.2026.rotation.1'']\<rparr>)"
  by (simp add: resolve_def Let_def GenerateFn_def clock_Now_def sizeRotation_of_def
      choose_name_def probe_stops exists_full_def generation_name_def Sprintf_d_def
      decimal.simps digit_char_def wrap64_def
      os_Stat_def issue_def refusing_world_def example_defs)

theorem getWriterNolock_create_fails_witness:
  "getWriterNolock False False (running_rl (7 * 24 * Hour) 0 10) refusing_world =
     Some (Inl (Wrap (SysErr (SysCreateFile ''app.2026.rotation.1''))
                  ''failed to create a new file app.2026.rotation.1''),
           running_rl (7 * 24 * Hour) 0 10,
           refusing_world\<lparr>w_trace := [SysStat ''app.2026'', SysStat ''app.2026.rotation.1'',
                                      SysCreateFile ''app.2026.rotation.1'']\<rparr>)"
proof -
  have c: "fileutil_CreateFile ''app.2026.rotation.1''
             (refusing_world\<lparr>w_trace := [SysStat ''app.2026'', SysStat ''app.2026.rotation.1'']\<rparr>)
           = (Inl (SysErr (SysCreateFile ''app.2026.rotation.1'')),
              refusing_world\<lparr>w_trace := [SysStat ''app.2026'', SysStat ''app.2026.rotation.1'',
                                      SysCreateFile ''app.2026.rotation.1'']\<rparr>)"
    by (simp add: fileutil_CreateFile_def issue_def refusing_world_def example_defs)
  then have c1: "fst (fileutil_CreateFile ''app.2026.rotation.1''
             (refusing_world\<lparr>w_trace := [SysStat ''app.2026'', SysStat ''app.2026.rotation.1'']\<rparr>))
           = Inl (SysErr (SysCreateFile ''app.2026.rotation.1''))"
    by simp
  show ?thesis
    using getWriterNolock_create_fails [OF refusing_resolve c1, of False] c by simp
qed

section \<open>The lock marker\<close>

lemma rotateNolock_lock_fails:
  assumes "fst (os_OpenFile_excl (filename @ ''_lock'') w) = Inl err"
  shows "rotateNolock rl filename w =
           (Some err, w\<lparr>w_trace := w_trace w @ [SysOpenExcl (filename @ ''_lock'')]\<rparr>)"
  using assms
  by (auto simp add: rotateNolock_def os_OpenFile_excl_def issue_def split: if_splits)

lemma lock_exists_fails:
  assumes "w_files w (filename @ ''_lock'') \<noteq> None"
  shows "fst (os_OpenFile_excl (filename @ ''_lock'') w) =
           Inl (if w_rejects w (SysOpenExcl (filename @ ''_lock''))
                then SysErr (SysOpenExcl (filename @ ''_lock''))
                else ErrExist (filename @ ''_lock''))"
  using assms by (auto simp add: os_OpenFile_excl_def)

lemma File_Close_stderr [simp]: "w_stderr (File_Close fh w) = w_stderr w"
  by (simp add: File_Close_def issue_def split: option.splits)

text \<open>
  Claim C3, as the code has it. When the lock marker \<^verbatim>\<open><filename>_lock\<close> is present
  at the time the cleanup runs (that is, once the new file has been opened),
  \<^verbatim>\<open>rotateNolock\<close> returns at once (it has issued the exclusive creation and nothing
  else) and what it returns is the error of that creation (line 317). An acquisition
  with \<^verbatim>\<open>bailOnRotateFail\<close> set, which is \<^verbatim>\<open>Rotate\<close>, fails with this error wrapped as
  "failed to rotate", closes the handle it has just opened (lines 242-244; the
  descriptor is no longer open, and no file has changed since it was opened) and leaves
  the engine unchanged; an acquisition without it, which is \<^verbatim>\<open>Write\<close>, prints the error
  to standard error, adopts the new file and succeeds.
\<close>

theorem lock_marker_exists:
  assumes r: "resolve useGenerationalNames rl w = Some (NewFile baseFn filename g, w0)"
    and c: "fileutil_CreateFile filename w0 = (Inr fh, w1)"
    and l: "w_files w1 (filename @ ''_lock'') \<noteq> None"
  shows "rotateNolock rl filename w1 =
           (Some (lock_error w1 (filename @ ''_lock'')),
            w1\<lparr>w_trace := w_trace w1 @ [SysOpenExcl (filename @ ''_lock'')]\<rparr>) \<and>
         (\<exists>w2. getWriterNolock True useGenerationalNames rl w =
                 Some (Inl (Wrap (lock_error w1 (filename @ ''_lock'')) ''failed to rotate''), rl, w2) \<and>
               w2 = File_Close (Some fh)
                      (w1\<lparr>w_trace := w_trace w1 @ [SysOpenExcl (filename @ ''_lock'')]\<rparr>) \<and>
               w_open w2 fh = None \<and> SysClose fh \<in> set (w_trace w2) \<and>
               w_files w2 = w_files w1) \<and>
         (\<exists>w2. getWriterNolock False useGenerationalNames rl w =
                 Some (Inr (Some fh),
                       rl\<lparr>outFh := Some fh, curBaseFn := baseFn, curFn := filename, generation := g\<rparr>,
                       w2) \<and>
               w_stderr w2 =
                 w_stderr w1 @ [Wrap (lock_error w1 (filename @ ''_lock'')) ''failed to rotate''])"
proof -
  have rot: "rotateNolock rl filename w1 =
           (Some (lock_error w1 (filename @ ''_lock'')),
            w1\<lparr>w_trace := w_trace w1 @ [SysOpenExcl (filename @ ''_lock'')]\<rparr>)"
    using rotateNolock_lock_fails [OF lock_exists_fails [OF l]]
    by (simp add: lock_error_def)
  have bail: "getWriterNolock True useGenerationalNames rl w =
      Some (Inl (Wrap (lock_error w1 (filename @ ''_lock'')) ''failed to rotate''), rl,
            File_Close (Some fh)
              (w1\<lparr>w_trace := w_trace w1 @ [SysOpenExcl (filename @ ''_lock'')]\<rparr>))"
    using r c rot by (simp add: getWriterNolock_def open_and_adopt_def)
  have closed: "w_open (File_Close (Some fh)
              (w1\<lparr>w_trace := w_trace w1 @ [SysOpenExcl (filename @ ''_lock'')]\<rparr>)) fh = None \<and>
      SysClose fh \<in> set (w_trace (File_Close (Some fh)
              (w1\<lparr>w_trace := w_trace w1 @ [SysOpenExcl (filename @ ''_lock'')]\<rparr>))) \<and>
      w_files (File_Close (Some fh)
              (w1\<lparr>w_trace := w_trace w1 @ [SysOpenExcl (filename @ ''_lock'')]\<rparr>)) = w_files w1"
    by (simp add: File_Close_def issue_def)
  have go: "\<exists>w2. getWriterNolock False useGenerationalNames rl w =
                 Some (Inr (Some fh),
                       rl\<lparr>outFh := Some fh, curBaseFn := baseFn, curFn := filename, generation := g\<rparr>,
                       w2) \<and>
               w_stderr w2 =
                 w_stderr w1 @ [Wrap (lock_error w1 (filename @ ''_lock'')) ''failed to rotate'']"
    using r c rot
    by (auto simp add: getWriterNolock_def open_and_adopt_def adopt_def Let_def
        split: option.splits)
  from rot bail closed go show ?thesis by blast
qed

lemma locked_resolve:
  "resolve u (example_rl (7 * 24 * Hour) 0 0) locked_world =
     Some (NewFile ''app.2026'' ''app.2026'' 0,
           locked_world\<lparr>w_trace := [SysStat [], SysGlob ''app.*'', SysStat ''app.2026'']\<rparr>)"
  by (simp add: resolve_def Let_def GenerateFn_def clock_Now_def sizeRotation_of_def
      filepath_Glob_def Contains.simps
      choose_name_def probe_stops exists_full_def generation_name_def
      os_Stat_def issue_def locked_world_def example_defs)

theorem lock_marker_exists_witness:
  "(\<exists>w2. getWriterNolock True True (example_rl (7 * 24 * Hour) 0 0) locked_world =
          Some (Inl (Wrap (ErrExist ''app.2026_lock'') ''failed to rotate''),
                example_rl (7 * 24 * Hour) 0 0, w2) \<and>
        w_open w2 3 = None \<and> SysClose 3 \<in> set (w_trace w2)) \<and>
   (\<exists>w2. getWriterNolock False False (example_rl (7 * 24 * Hour) 0 0) locked_world =
          Some (Inr (Some 3),
                (example_rl (7 * 24 * Hour) 0 0)
                  \<lparr>outFh := Some 3, curBaseFn := ''app.2026'', curFn := ''app.2026'', generation := 0\<rparr>,
                w2) \<and>
        w_stderr w2 = [Wrap (ErrExist ''app.2026_lock'') ''failed to rotate''])"
proof -
  let ?w0 = "locked_world\<lparr>w_trace := [SysStat [], SysGlob ''app.*'', SysStat ''app.2026'']\<rparr>"
  let ?w1 = "snd (fileutil_CreateFile ''app.2026'' ?w0)"
  have c: "fileutil_CreateFile ''app.2026'' ?w0 = (Inr 3, ?w1)"
    by (simp add: fileutil_CreateFile_def Let_def locked_world_def example_defs)
  have l: "w_files ?w1 (''app.2026'' @ ''_lock'') \<noteq> None"
    by (simp add: fileutil_CreateFile_def Let_def issue_def locked_world_def example_defs)
  have e: "lock_error ?w1 (''app.2026'' @ ''_lock'') = ErrExist ''app.2026_lock''"
    by (simp add: lock_error_def fileutil_CreateFile_def Let_def issue_def locked_world_def
        example_defs)
  have s: "w_stderr ?w1 = []"
    by (simp add: fileutil_CreateFile_def Let_def issue_def locked_world_def example_defs)
  show ?thesis
    using lock_marker_exists [OF locked_resolve c l, where useGenerationalNames = True]
      lock_marker_exists [OF locked_resolve c l, where useGenerationalNames = False]
    unfolding e s by auto
qed

text \<open>
  "Without reporting an error" does not hold: with the marker present the routine
  returns the error "file exists", and \<^verbatim>\<open>Rotate\<close> fails with it.
\<close>

theorem lock_marker_error_counterexample:
  "fst (rotateNolock (example_rl (7 * 24 * Hour) 0 0) ''app.2026'' locked_world) =
     Some (ErrExist ''app.2026_lock'') \<and>
   map_option fst (Rotate (example_rl (7 * 24 * Hour) 0 0) locked_world) =
     Some (Some (Wrap (ErrExist ''app.2026_lock'') ''failed to rotate''))"
  apply (simp only: Rotate_def getWriterNolock_def locked_resolve)
  apply (simp add: open_and_adopt_def
      rotateNolock_def os_OpenFile_excl_def fileutil_CreateFile_def Let_def issue_def
      File_Close_def locked_world_def example_defs)
  done

section \<open>The first acquisition\<close>

lemma scan_matches_step:
  "scan_matches (path # rest) g mx w =
     (if \<not> Contains path ''rotation'' then scan_matches rest 0 mx w
      else case stat_seconds w path of
             None \<Rightarrow> scan_matches rest g mx (issue (SysStat path) w)
           | Some s \<Rightarrow>
               if s \<ge> mx then scan_matches rest (generation_in_name path) s (issue (SysStat path) w)
               else scan_matches rest g mx (issue (SysStat path) w))"
  by (subst scan_matches.simps, subst os_Stat_eq)
     (simp add: stat_seconds_def split: option.splits)

lemma scan_matches_append:
  "scan_matches (xs @ ys) g mx w =
     (case scan_matches xs g mx w of (g', mx', w') \<Rightarrow> scan_matches ys g' mx' w')"
proof (induction xs arbitrary: g mx w)
  case Nil
  then show ?case by simp
next
  case (Cons x xs)
  show ?case
    unfolding append_Cons scan_matches_step
    by (simp add: Cons split: option.splits)
qed

lemma scan_matches_bound:
  "mx \<le> t \<Longrightarrow>
   \<forall>q\<in>set pre. \<forall>s. Contains q ''rotation'' \<and> stat_seconds w q = Some s \<longrightarrow> s \<le> t \<Longrightarrow>
   fst (snd (scan_matches pre g mx w)) \<le> t"
proof (induction pre arbitrary: g mx w)
  case Nil
  then show ?case by simp
next
  case (Cons x xs)
  show ?case
    unfolding scan_matches_step
    using Cons.prems by (auto intro!: Cons.IH split: option.splits)
qed

lemma scan_matches_older:
  "\<forall>q\<in>set post. Contains q ''rotation'' \<and> (\<forall>s. stat_seconds w q = Some s \<longrightarrow> s < mx) \<Longrightarrow>
   fst (scan_matches post g mx w) = g \<and> fst (snd (scan_matches post g mx w)) = mx"
proof (induction post arbitrary: w)
  case Nil
  then show ?case by simp
next
  case (Cons x xs)
  show ?case
    unfolding scan_matches_step
    using Cons.prems by (auto simp add: Cons.IH split: option.splits)
qed

lemma scan_matches_newest:
  assumes p: "Contains p ''rotation''" "stat_seconds w p = Some t" "0 \<le> t"
    and pre: "\<forall>q\<in>set pre. \<forall>s. Contains q ''rotation'' \<and> stat_seconds w q = Some s \<longrightarrow> s \<le> t"
    and post: "\<forall>q\<in>set post. Contains q ''rotation'' \<and> (\<forall>s. stat_seconds w q = Some s \<longrightarrow> s < t)"
  shows "fst (scan_matches (pre @ p # post) g0 0 w) = generation_in_name p"
proof -
  obtain g1 mx1 w1 where s1: "scan_matches pre g0 0 w = (g1, mx1, w1)"
    by (cases "scan_matches pre g0 0 w") auto
  have b: "mx1 \<le> t"
    using scan_matches_bound [OF p(3) pre, of g0] s1 by simp
  have f: "only_trace w w1" using s1 by (rule scan_matches_only_trace)
  then have w1: "w1 = w\<lparr>w_trace := w_trace w1\<rparr>" by (simp add: only_trace_def)
  have st: "\<And>q. stat_seconds w1 q = stat_seconds w q"
    by (subst w1) (simp add: stat_seconds_def)
  have post': "\<forall>q\<in>set post. Contains q ''rotation'' \<and>
      (\<forall>s. stat_seconds (issue (SysStat p) w1) q = Some s \<longrightarrow> s < t)"
    using post by (simp add: st)
  show ?thesis
    unfolding scan_matches_append s1
    using p b scan_matches_older [OF post', of "generation_in_name p"]
    by (simp add: scan_matches_step st del: scan_matches.simps)
qed

text \<open>
  Claim C2, as the code has it. At the first acquisition (no base filename recorded)
  the scan of the files matching the glob leaves, as the generation from which the
  search for the file name starts, the number read from the name of the newest file that
  carries the marker \<^verbatim>\<open>rotation\<close>: newest by modification time in whole seconds, not
  before the epoch, the last in glob order among equally new ones. This is proved when
  every path after that file in the glob order carries the marker.
\<close>

theorem first_acquisition_resumes_newest:
  assumes first: "curBaseFn rl = []"
    and base: "GenerateFn (pattern rl) (clock rl) (rotationTime rl) w \<noteq> []"
    and glob: "w_Glob w (w_files w) (globPattern rl) = Some (pre @ p # post)"
    and p: "Contains p ''rotation''" "stat_seconds w p = Some t" "0 \<le> t"
    and pre: "\<forall>q\<in>set pre. \<forall>s. Contains q ''rotation'' \<and> stat_seconds w q = Some s \<longrightarrow> s \<le> t"
    and post: "\<forall>q\<in>set post. Contains q ''rotation'' \<and> (\<forall>s. stat_seconds w q = Some s \<longrightarrow> s < t)"
  shows "\<exists>w'. only_trace w w' \<and>
           resolve useGenerationalNames rl w =
             choose_name rl True (GenerateFn (pattern rl) (clock rl) (rotationTime rl) w)
               (generation_in_name p) w'"
proof -
  let ?w2 = "issue (SysGlob (globPattern rl)) (issue (SysStat (curFn rl)) w)"
  obtain g mx w3 where s: "scan_matches (pre @ p # post) (generation rl) 0 ?w2 = (g, mx, w3)"
    by (cases "scan_matches (pre @ p # post) (generation rl) 0 ?w2") auto
  have p2: "stat_seconds ?w2 p = Some t" using p by simp
  have pre2: "\<forall>q\<in>set pre. \<forall>s. Contains q ''rotation'' \<and> stat_seconds ?w2 q = Some s \<longrightarrow> s \<le> t"
    using pre by simp
  have post2: "\<forall>q\<in>set post. Contains q ''rotation'' \<and> (\<forall>s. stat_seconds ?w2 q = Some s \<longrightarrow> s < t)"
    using post by simp
  have g: "g = generation_in_name p"
    using scan_matches_newest [OF p(1) p2 p(3) pre2 post2, of "generation rl"] s by simp
  have "only_trace ?w2 w3" using s by (rule scan_matches_only_trace)
  then have f: "only_trace w w3" by simp
  have "resolve useGenerationalNames rl w =
          choose_name rl True (GenerateFn (pattern rl) (clock rl) (rotationTime rl) w) g w3"
    using first base glob s
    by (subst resolve_def, subst os_Stat_eq)
       (simp add: Let_def filepath_Glob_def issue_def)
  with f g show ?thesis by blast
qed

theorem first_acquisition_resumes_newest_witness:
  "\<exists>w'. only_trace restart_world w' \<and>
         resolve False (example_rl (7 * 24 * Hour) 0 10) restart_world =
           choose_name (example_rl (7 * 24 * Hour) 0 10) True ''app.2026'' 1 w'"
proof -
  let ?rl = "example_rl (7 * 24 * Hour) 0 10"
  have first: "curBaseFn ?rl = []" by (simp add: example_defs)
  have base: "GenerateFn (pattern ?rl) (clock ?rl) (rotationTime ?rl) restart_world = ''app.2026''"
    by (simp add: GenerateFn_def example_defs)
  then have base': "GenerateFn (pattern ?rl) (clock ?rl) (rotationTime ?rl) restart_world \<noteq> []"
    by simp
  have glob: "w_Glob restart_world (w_files restart_world) (globPattern ?rl) =
                Some ([''app.2026''] @ ''app.2026.rotation.1'' # [''app.2026.rotation.2''])"
    by (simp add: restart_world_def example_defs)
  have p1: "Contains ''app.2026.rotation.1'' ''rotation''"
    by (simp add: HasPrefix_def)
  have p2: "stat_seconds restart_world ''app.2026.rotation.1'' = Some 200"
    by (simp add: stat_seconds_def os_Stat_def Unix_def restart_world_def example_defs)
  have p3: "(0::int) \<le> 200" by simp
  have pre: "\<forall>q\<in>set [''app.2026'']. \<forall>s. Contains q ''rotation'' \<and>
               stat_seconds restart_world q = Some s \<longrightarrow> s \<le> 200"
    by (simp add: HasPrefix_def)
  have post: "\<forall>q\<in>set [''app.2026.rotation.2'']. Contains q ''rotation'' \<and>
               (\<forall>s. stat_seconds restart_world q = Some s \<longrightarrow> s < 200)"
    by (simp add: HasPrefix_def stat_seconds_def os_Stat_def Unix_def restart_world_def example_defs)
  have n: "generation_in_name ''app.2026.rotation.1'' = 1"
    by (simp add: generation_in_name_def LastIndex_def digit_of_def MaxInt64_def)
  show ?thesis
    using first_acquisition_resumes_newest [OF first base' glob p1 p2 p3 pre post, of False]
    unfolding n base by simp
qed

text \<open>
  "The highest discovered generation" does not hold: generation 2 is on disk, generation
  1 was modified later, and the engine resumes at generation 1.
\<close>

theorem newest_not_highest_counterexample:
  "w_files restart_world ''app.2026.rotation.2'' \<noteq> None \<and>
   map_option (generation \<circ> fst \<circ> snd)
     (getWriterNolock False False (example_rl (7 * 24 * Hour) 0 10) restart_world) = Some 1 \<and>
   map_option (curFn \<circ> fst \<circ> snd)
     (getWriterNolock False False (example_rl (7 * 24 * Hour) 0 10) restart_world) =
     Some ''app.2026.rotation.1''"
proof -
  let ?rl = "example_rl (7 * 24 * Hour) 0 10"
  have r: "resolve False ?rl restart_world =
             Some (NewFile ''app.2026'' ''app.2026.rotation.1'' 1,
                   restart_world\<lparr>w_trace := [SysStat [], SysGlob ''app.*'', SysStat ''app.2026.rotation.1'',
                      SysStat ''app.2026.rotation.2'', SysStat ''app.2026.rotation.1'']\<rparr>)"
    by (simp add: resolve_def Let_def GenerateFn_def clock_Now_def sizeRotation_of_def
      filepath_Glob_def generation_in_name_def LastIndex_def digit_of_def MaxInt64_def
      choose_name_def probe_stops exists_full_def generation_name_def
      Sprintf_d_def decimal.simps digit_char_def Unix_def
      os_Stat_def issue_def restart_world_def example_defs)
  have g: "getWriterNolock False False ?rl restart_world =
        Some (open_and_adopt False ?rl ''app.2026'' ''app.2026.rotation.1'' 1
               (restart_world\<lparr>w_trace := [SysStat [], SysGlob ''app.*'', SysStat ''app.2026.rotation.1'',
                      SysStat ''app.2026.rotation.2'', SysStat ''app.2026.rotation.1'']\<rparr>))"
    by (simp only: getWriterNolock_def r option.case prod.case decision.case)
  have f: "w_files restart_world ''app.2026.rotation.2'' \<noteq> None"
    by (simp add: restart_world_def example_defs)
  have c: "fst (fileutil_CreateFile ''app.2026.rotation.1''
              (restart_world\<lparr>w_trace := [SysStat [], SysGlob ''app.*'', SysStat ''app.2026.rotation.1'',
                      SysStat ''app.2026.rotation.2'', SysStat ''app.2026.rotation.1'']\<rparr>)) = Inr 3"
    by (simp add: fileutil_CreateFile_def Let_def restart_world_def example_defs)
  show ?thesis
    unfolding g using f c
    by (auto simp add: open_and_adopt_def adopt_def Let_def
        split: prod.splits sum.splits option.splits)
qed

section \<open>The retention policy of an engine\<close>

lemma New_exactly_one:
  assumes "New strftime_New p options = Inr rl"
  shows "exactly_one_retention rl"
proof -
  have "0 \<le> s_maxAge (foldl apply_option initial_settings options)"
    by (simp add: settings_maxAge)
  with assms show ?thesis
    by (auto simp add: New_def Let_def exactly_one_retention_def Hour_def
        split: option.splits if_splits)
qed

lemma same_policy_refl [simp]: "same_policy rl rl"
  by (simp add: same_policy_def)

lemma same_policy_trans: "same_policy a b \<Longrightarrow> same_policy b c \<Longrightarrow> same_policy a c"
  by (cases a, cases b, cases c) (auto simp add: same_policy_def)

lemma same_policy_retention:
  "same_policy rl rl' \<Longrightarrow> maxAge rl' = maxAge rl \<and> rotationCount rl' = rotationCount rl"
  by (cases rl, cases rl') (auto simp add: same_policy_def)

lemma same_policy_exactly_one:
  "same_policy rl rl' \<Longrightarrow> exactly_one_retention rl' = exactly_one_retention rl"
  by (simp add: exactly_one_retention_def same_policy_retention)

lemma adopt_policy: "same_policy rl (fst (snd (adopt rl baseFn filename g fh w)))"
  by (simp add: adopt_def Let_def same_policy_def)

lemma open_and_adopt_policy_aux:
  "same_policy rl (fst (snd (open_and_adopt b rl baseFn filename g w)))"
  by (auto simp add: open_and_adopt_def adopt_policy split: prod.splits sum.splits option.splits)

lemma open_and_adopt_policy:
  "open_and_adopt b rl baseFn filename g w = (r, rl', w') \<Longrightarrow> same_policy rl rl'"
  using open_and_adopt_policy_aux [of rl b baseFn filename g w] by simp

lemma getWriterNolock_policy:
  "getWriterNolock b u rl w = Some (r, rl', w') \<Longrightarrow> same_policy rl rl'"
  by (auto simp add: getWriterNolock_def split: option.splits prod.splits decision.splits
      dest: open_and_adopt_policy)

lemma step_policy: "step c (rl, w) = Some (rl', w') \<Longrightarrow> same_policy rl rl'"
proof (cases c)
  case (CallWrite p)
  assume "step c (rl, w) = Some (rl', w')"
  with CallWrite show ?thesis
    by (auto simp add: Write_def split: option.splits prod.splits sum.splits
        dest: getWriterNolock_policy)
next
  case CallRotate
  assume "step c (rl, w) = Some (rl', w')"
  with CallRotate show ?thesis
    by (auto simp add: Rotate_def split: option.splits prod.splits sum.splits
        dest: getWriterNolock_policy)
next
  case CallClose
  assume "step c (rl, w) = Some (rl', w')"
  with CallClose show ?thesis
    by (auto simp add: Close_def same_policy_def split: if_splits)
qed

lemma run_policy: "run cs (rl, w) = Some (rl', w') \<Longrightarrow> same_policy rl rl'"
proof (induction cs arbitrary: rl w)
  case Nil
  then show ?case by simp
next
  case (Cons c cs)
  then obtain rl1 w1 where s: "step c (rl, w) = Some (rl1, w1)" and r: "run cs (rl1, w1) = Some (rl', w')"
    by (auto split: option.splits)
  from step_policy [OF s] Cons.IH [OF r] show ?case by (rule same_policy_trans)
qed

lemma OpenFile_excl_error:
  "os_OpenFile_excl p w = (Inl e, w') \<Longrightarrow> e = SysErr (SysOpenExcl p) \<or> e = ErrExist p"
  by (auto simp add: os_OpenFile_excl_def split: if_splits)

lemma link_step_error:
  "link_step rl filename w = (Some e, w') \<Longrightarrow> \<exists>e' m. e = Wrap e' m"
  by (auto simp add: link_step_def Let_def split: if_splits prod.splits sum.splits option.splits)

lemma purge_error:
  "exactly_one_retention rl \<Longrightarrow> purge rl w = (Some e, w') \<Longrightarrow> e = ErrBadPattern"
  by (auto simp add: purge_def Let_def exactly_one_retention_def
      split: if_splits prod.splits option.splits)

lemma rotateNolock_error:
  assumes "exactly_one_retention rl" and "fst (rotateNolock rl filename w) = Some e"
  shows "e = SysErr (SysOpenExcl (filename @ ''_lock'')) \<or> e = ErrExist (filename @ ''_lock'') \<or>
         e = ErrBadPattern \<or> (\<exists>e' m. e = Wrap e' m)"
  using assms(2)
  by (auto simp add: rotateNolock_def Let_def split: prod.splits sum.splits option.splits
      dest: OpenFile_excl_error link_step_error purge_error [OF assms(1)])

lemma open_and_adopt_no_panic:
  assumes "exactly_one_retention rl"
  shows "fst (open_and_adopt b rl baseFn filename g w) \<noteq>
           Inl (Wrap (ErrorsNew ''panic: maxAge and rotationCount are both set'') ''failed to rotate'')"
proof (cases "fileutil_CreateFile filename w")
  case (Pair res w1)
  show ?thesis
  proof (cases res)
    case (Inl err)
    with Pair show ?thesis by (simp add: open_and_adopt_def)
  next
    case (Inr fh)
    show ?thesis
    proof (cases "rotateNolock rl filename w1")
      case (Pair r w2)
      then have "r \<noteq> Some (ErrorsNew ''panic: maxAge and rotationCount are both set'')"
        using rotateNolock_error [OF assms, of filename w1] by auto
      with Pair Inr \<open>fileutil_CreateFile filename w = (res, w1)\<close> show ?thesis
        by (auto simp add: open_and_adopt_def adopt_def Let_def split: option.splits)
    qed
  qed
qed

lemma resolve_Failed:
  "resolve u rl w = Some (Failed e, w') \<Longrightarrow>
   e = Wrap ErrBadPattern (''failed to glob directory '' @ globPattern rl)"
  by (subst (asm) resolve_def, subst (asm) os_Stat_eq)
     (auto simp add: Let_def choose_name_def split: if_splits option.splits prod.splits)

lemma getWriterNolock_no_panic:
  assumes "exactly_one_retention rl" and "getWriterNolock b u rl w = Some (r, rl', w')"
  shows "r \<noteq> Inl (Wrap (ErrorsNew ''panic: maxAge and rotationCount are both set'') ''failed to rotate'')"
  using assms(2) open_and_adopt_no_panic [OF assms(1), of b]
  by (auto simp add: getWriterNolock_def split: option.splits prod.splits decision.splits
      dest!: resolve_Failed) (metis fst_conv)

text \<open>
  Claim C10. An engine returned by \<^verbatim>\<open>New\<close> has exactly one of \<^verbatim>\<open>maxAge > 0\<close> and
  \<^verbatim>\<open>rotationCount > 0\<close>; after any sequence of \<^verbatim>\<open>Write\<close>, \<^verbatim>\<open>Rotate\<close> and \<^verbatim>\<open>Close\<close> calls
  its policy fields are what they were, so the same holds; and on such an engine
  \<^verbatim>\<open>rotateNolock\<close> never returns the error of line 365, whatever the file name and the
  state of the world, nor does an acquisition return that error wrapped as "failed to
  rotate".
\<close>

theorem retention_invariant:
  assumes "New strftime_New p options = Inr rl0"
    and "run calls (rl0, w0) = Some (rl, w)"
  shows "exactly_one_retention rl0 \<and> same_policy rl0 rl \<and> exactly_one_retention rl \<and>
         (\<forall>filename w'. fst (rotateNolock rl filename w') \<noteq>
                          Some (ErrorsNew ''panic: maxAge and rotationCount are both set'')) \<and>
         (\<forall>b u w' r rl' w''. getWriterNolock b u rl w' = Some (r, rl', w'') \<longrightarrow>
            r \<noteq> Inl (Wrap (ErrorsNew ''panic: maxAge and rotationCount are both set'')
                        ''failed to rotate''))"
proof -
  have a: "exactly_one_retention rl0" using assms(1) by (rule New_exactly_one)
  have b: "same_policy rl0 rl" using assms(2) by (rule run_policy)
  have c: "exactly_one_retention rl" using a b by (simp add: same_policy_exactly_one)
  have d: "fst (rotateNolock rl filename w') \<noteq>
             Some (ErrorsNew ''panic: maxAge and rotationCount are both set'')" for filename w'
    using rotateNolock_error [OF c, of filename w'] by auto
  have e: "\<forall>b u w' r rl' w''. getWriterNolock b u rl w' = Some (r, rl', w'') \<longrightarrow>
            r \<noteq> Inl (Wrap (ErrorsNew ''panic: maxAge and rotationCount are both set'')
                        ''failed to rotate'')"
    using getWriterNolock_no_panic [OF c] by blast
  from a b c d e show ?thesis by blast
qed

lemma example_New:
  "New example_strftime_New ''app.%Y'' [optkeyRotationCount 2] = Inr (example_rl 0 2 0)"
  by (simp add: New_def example_strftime_New_def initial_settings_def is_verb_char_def
      example_defs)

lemma example_run:
  "\<exists>w. run [CallWrite ''hello'', CallRotate, CallClose] (example_rl 0 2 0, example_world [] Hour) =
         Some (rotated_rl, w)"
  by (simp add: engine_defs os_defs probe_stops Sprintf_d_def decimal.simps digit_char_def
      wrap64_def rotated_rl_def example_defs)

lemma example_acquire:
  "\<exists>fh rl' w'. getWriterNolock False False rotated_rl (example_world [] Hour) = Some (Inr fh, rl', w')"
  by (simp add: engine_defs os_defs probe_stops Sprintf_d_def decimal.simps digit_char_def
      wrap64_def rotated_rl_def example_defs)

theorem retention_invariant_witness:
  "\<exists>w. run [CallWrite ''hello'', CallRotate, CallClose]
            (example_rl 0 2 0, example_world [] Hour) = Some (rotated_rl, w) \<and>
          exactly_one_retention (example_rl 0 2 0) \<and> same_policy (example_rl 0 2 0) rotated_rl \<and>
          exactly_one_retention rotated_rl \<and>
          fst (rotateNolock rotated_rl ''app.2026'' w) \<noteq>
            Some (ErrorsNew ''panic: maxAge and rotationCount are both set'') \<and>
          (\<exists>r rl' w'. getWriterNolock False False rotated_rl (example_world [] Hour) = Some (r, rl', w') \<and>
              r \<noteq> Inl (Wrap (ErrorsNew ''panic: maxAge and rotationCount are both set'')
                        ''failed to rotate''))"
proof -
  obtain w where r: "run [CallWrite ''hello'', CallRotate, CallClose]
            (example_rl 0 2 0, example_world [] Hour) = Some (rotated_rl, w)"
    using example_run by auto
  obtain fh rl' w' where g: "getWriterNolock False False rotated_rl (example_world [] Hour) =
      Some (Inr fh, rl', w')"
    using example_acquire by auto
  from retention_invariant [OF example_New r] r g show ?thesis by blast
qed

section \<open>What the purge removes\<close>

text \<open>
  Under \<^verbatim>\<open>maxAge\<close> alone and without a link name, the cleanup leaves every entry of the
  directory but its own lock marker as it was: the loop that fills \<^verbatim>\<open>toUnlink\<close> only
  examines files, and the one removal is that of the empty path.
\<close>

lemma os_Lstat_eq: "os_Lstat p w = (fst (os_Lstat p w), issue (SysLstat p) w)"
  by (simp add: os_Lstat_def)

lemma collect_toUnlink_only_trace_aux:
  "only_trace w0 w \<Longrightarrow> only_trace w0 (snd (collect_toUnlink rl cutoff ms acc w))"
proof (induction ms arbitrary: acc w)
  case Nil
  then show ?case by simp
next
  case (Cons path rest)
  show ?case
    by (subst collect_toUnlink.simps, subst os_Stat_eq, subst os_Lstat_eq)
       (auto simp add: Cons split: option.splits)
qed

lemma collect_toUnlink_only_trace:
  "collect_toUnlink rl cutoff ms acc w = (toUnlink, w') \<Longrightarrow> only_trace w w'"
  using collect_toUnlink_only_trace_aux [of w w rl cutoff ms acc] by simp

lemma maxAge_purge_only_trace:
  assumes "rotationCount rl = 0"
  shows "only_trace w (snd (purge rl w))"
  using assms
  by (auto simp add: purge_def Let_def filepath_Glob_def os_Remove_def
      split: option.splits prod.splits dest!: collect_toUnlink_only_trace)

lemma maxAge_cleanup_keeps_every_file:
  assumes "rotationCount rl = 0" and "linkName rl = []" and "p \<noteq> filename @ ''_lock''"
  shows "w_files (snd (rotateNolock rl filename w)) p = w_files w p"
proof (cases "os_OpenFile_excl (filename @ ''_lock'') w")
  case (Pair res w1)
  show ?thesis
  proof (cases res)
    case (Inl err)
    with Pair show ?thesis
      by (auto simp add: rotateNolock_def os_OpenFile_excl_def issue_def split: if_splits)
  next
    case (Inr fh)
    have f1: "w_files w1 p = w_files w p"
      using Pair Inr assms(3)
      by (auto simp add: os_OpenFile_excl_def issue_def split: if_splits)
    have "only_trace w1 (snd (purge rl w1))" using assms(1) by (rule maxAge_purge_only_trace)
    then have f2: "w_files (snd (purge rl w1)) = w_files w1"
      using only_trace_fields by blast
    obtain r w3 where pu: "purge rl w1 = (r, w3)" by (cases "purge rl w1") auto
    with f2 have f3: "w_files w3 = w_files w1" by simp
    show ?thesis
      using Pair Inr assms(2,3) f1 f3 pu
      by (simp add: rotateNolock_def link_step_def os_Remove_def File_Close_def issue_def
          Let_def)
  qed
qed

text \<open>
  The search for the oldest file selects nothing when no candidate was modified before
  the second at which it starts.
\<close>

lemma oldest_file_none_older:
  "\<forall>p\<in>set ps. \<forall>s. stat_seconds w p = Some s \<longrightarrow> minFileTime \<le> s \<Longrightarrow>
   fst (oldest_file ps minFileTime toUnlinkfile w) = toUnlinkfile"
proof (induction ps arbitrary: w)
  case Nil
  then show ?case by simp
next
  case (Cons path rest)
  have "\<forall>p\<in>set rest. \<forall>s. stat_seconds (issue (SysStat path) w) p = Some s \<longrightarrow> minFileTime \<le> s"
    using Cons.prems by simp
  then have IH: "fst (oldest_file rest minFileTime toUnlinkfile (issue (SysStat path) w)) = toUnlinkfile"
    by (rule Cons.IH)
  show ?case
    using Cons.prems IH
    by (subst oldest_file.simps, subst os_Stat_eq)
       (auto simp add: stat_seconds_def split: option.splits)
qed

text \<open>
  Claim C1, at an input where the code departs from it. \<^verbatim>\<open>maxAge\<close> is one hour and the
  clock reads ten hours; \<^verbatim>\<open>app.2025\<close> matches the glob and was modified at hour 0, at
  or before the cutoff. The cleanup examines it, calls \<^verbatim>\<open>os.Remove\<close> on the empty
  string and on the lock marker only, and leaves the directory as it found it.
\<close>

theorem maxAge_purge_deletes_nothing:
  "rotateNolock (example_rl (1 * Hour) 0 0) ''app.2026'' aged_world =
     (None,
      aged_world
        \<lparr>w_trace := [SysOpenExcl ''app.2026_lock'', SysGlob ''app.*'', SysStat ''app.2025'',
                     SysLstat ''app.2025'', SysStat ''app.2026'', SysLstat ''app.2026'',
                     SysRemove [], SysClose 3, SysRemove ''app.2026_lock''],
          w_nextfd := 4\<rparr>) \<and>
   w_files aged_world ''app.2025'' = Some (regular 10 0) \<and>
   nd_mtime (regular 10 0) \<le> clock_Now (clock (example_rl (1 * Hour) 0 0)) aged_world - 1 * Hour"
  by (simp add: engine_defs os_defs aged_world_def example_defs)

text \<open>
  Claim C7, at an input where the code departs from it. \<^verbatim>\<open>rotationCount\<close> is 1; two
  regular files match the glob, both modified within the second in which the cleanup
  runs. The candidates outnumber the count, the search for the oldest finds no file
  older than \<^verbatim>\<open>time.Now().Unix()\<close>, and the cleanup removes nothing.
\<close>

theorem rotationCount_purge_deletes_nothing:
  "rotateNolock (example_rl 0 1 0) ''app.2026'' crowded_world =
     (None,
      crowded_world
        \<lparr>w_trace := [SysOpenExcl ''app.2026_lock'', SysGlob ''app.*'', SysStat ''app.2025'',
                     SysLstat ''app.2025'', SysStat ''app.2026'', SysLstat ''app.2026'',
                     SysStat ''app.2025'', SysStat ''app.2026'',
                     SysRemove [], SysClose 3, SysRemove ''app.2026_lock''],
          w_nextfd := 4\<rparr>) \<and>
   w_files crowded_world ''app.2025'' \<noteq> None \<and> w_files crowded_world ''app.2026'' \<noteq> None"
  by (simp add: engine_defs os_defs crowded_world_def example_defs)

end
